theory Spec2Isabelle
  imports Main
begin

section \<open>JavaScript values\<close>

text \<open>
  The handlers of \<^verbatim>\<open>src/script.mjs\<close> receive \<^verbatim>\<open>params\<close> and \<^verbatim>\<open>context\<close> as
  JSON-like values: the JavaScript primitives, arrays, and objects kept as the list of
  their own properties in insertion order. No value is callable.

  A number is kept as what the handlers can observe of it, since they never compute with
  the numbers they are given: whether it is truthy (neither zero nor \<^verbatim>\<open>NaN\<close>) and the text
  that its conversion to a string gives.
\<close>

datatype jsval =
    JUndefined
  | JNull
  | JBool bool
  | JNum bool string
  | JStr string
  | JArr "jsval list"
  | JObj "(string \<times> jsval) list"

text \<open>JavaScript truthiness, as \<^verbatim>\<open>!x\<close>, \<^verbatim>\<open>x || y\<close> and \<^verbatim>\<open>if (x)\<close> test it.\<close>

fun truthy :: "jsval \<Rightarrow> bool" where
  "truthy JUndefined = False"
| "truthy JNull = False"
| "truthy (JBool b) = b"
| "truthy (JNum t s) = t"
| "truthy (JStr s) = (s \<noteq> [])"
| "truthy (JArr xs) = True"
| "truthy (JObj ps) = True"

fun typeof :: "jsval \<Rightarrow> string" where
  "typeof JUndefined = ''undefined''"
| "typeof JNull = ''object''"
| "typeof (JBool b) = ''boolean''"
| "typeof (JNum t s) = ''number''"
| "typeof (JStr s) = ''string''"
| "typeof (JArr xs) = ''object''"
| "typeof (JObj ps) = ''object''"


text \<open>A thrown library error (a TypeError, a SyntaxError, ...) is \<open>Inl\<close> of its message.\<close>

definition quoted :: "string \<Rightarrow> string" where
  "quoted s = [CHR 0x27] @ s @ [CHR 0x27]"

definition own_prop :: "(string \<times> jsval) list \<Rightarrow> string \<Rightarrow> jsval" where
  "own_prop ps k = (case map_of ps k of None \<Rightarrow> JUndefined | Some v \<Rightarrow> v)"

text \<open>
  Property read \<^verbatim>\<open>v.k\<close> and \<^verbatim>\<open>v[k]\<close>, for the property names the scripts use (none is
  an index, \<^verbatim>\<open>length\<close> or a name of a prototype): a TypeError on \<^verbatim>\<open>undefined\<close> and
  \<^verbatim>\<open>null\<close>, \<^verbatim>\<open>undefined\<close> for a property the value does not have.
\<close>

fun get_prop :: "jsval \<Rightarrow> string \<Rightarrow> string + jsval" where
  "get_prop JUndefined k =
     Inl (''Cannot read properties of undefined (reading '' @ quoted k @ '')'')"
| "get_prop JNull k =
     Inl (''Cannot read properties of null (reading '' @ quoted k @ '')'')"
| "get_prop (JObj ps) k = Inr (own_prop ps k)"
| "get_prop v k = Inr JUndefined"

text \<open>Optional chaining \<^verbatim>\<open>v?.k\<close>; also the property \<^verbatim>\<open>k\<close> of a value known to be neither
  \<^verbatim>\<open>undefined\<close> nor \<^verbatim>\<open>null\<close>.\<close>

fun get_prop_opt :: "jsval \<Rightarrow> string \<Rightarrow> jsval" where
  "get_prop_opt (JObj ps) k = own_prop ps k"
| "get_prop_opt v k = JUndefined"

text \<open>
  The check that opens a destructuring \<^verbatim>\<open>const {first, ...} = source\<close>: a TypeError when
  the value is \<^verbatim>\<open>undefined\<close> or \<^verbatim>\<open>null\<close>.
\<close>

fun destructurable :: "string \<Rightarrow> string \<Rightarrow> jsval \<Rightarrow> string + unit" where
  "destructurable first source JUndefined =
     Inl (''Cannot destructure property '' @ quoted first @ '' of '' @ quoted source
          @ '' as it is undefined.'')"
| "destructurable first source JNull =
     Inl (''Cannot destructure property '' @ quoted first @ '' of '' @ quoted source
          @ '' as it is null.'')"
| "destructurable first source v = Inr ()"

text \<open>Decimal notation of a natural number (a status code, the clock).\<close>

definition digit_char :: "nat \<Rightarrow> char" where
  "digit_char d = ''0123456789'' ! (d mod 10)"

function string_of_nat :: "nat \<Rightarrow> string" where
  "string_of_nat n =
     (if n < 10 then [digit_char n] else string_of_nat (n div 10) @ [digit_char (n mod 10)])"
  by pat_completeness auto
termination
  by (relation "measure (\<lambda>n. n)") auto

declare string_of_nat.simps [simp del]

text \<open>
  The number a script computes from the clock: below \<open>10\<^sup>2\<^sup>1\<close>, where a number prints
  in decimal notation.
\<close>

definition js_nat :: "nat \<Rightarrow> jsval" where
  "js_nat n = JNum (n \<noteq> 0) (string_of_nat n)"

text \<open>
  String conversion inside a template literal \<^verbatim>\<open>`${v}`\<close>. An object is converted through
  its \<^verbatim>\<open>toString\<close>: the one of \<^verbatim>\<open>Object.prototype\<close> gives \<^verbatim>\<open>[object Object]\<close>, but an
  own property of that name shadows it, is not callable, and the conversion ends in a
  TypeError (\<^verbatim>\<open>valueOf\<close>, own or inherited, never yields a primitive either). An array
  joins the conversions of its elements with commas, \<^verbatim>\<open>null\<close> and \<^verbatim>\<open>undefined\<close> giving
  the empty text.
\<close>

fun to_string :: "jsval \<Rightarrow> string + string"
  and elements_to_string :: "jsval list \<Rightarrow> string + string" where
  "to_string JUndefined = Inr ''undefined''"
| "to_string JNull = Inr ''null''"
| "to_string (JBool b) = Inr (if b then ''true'' else ''false'')"
| "to_string (JNum t s) = Inr s"
| "to_string (JStr s) = Inr s"
| "to_string (JArr xs) = elements_to_string xs"
| "to_string (JObj ps) =
     (if ''toString'' \<in> set (map fst ps)
      then Inl ''Cannot convert object to primitive value''
      else Inr ''[object Object]'')"
| "elements_to_string [] = Inr []"
| "elements_to_string (x # xs) =
     (case (if x = JUndefined \<or> x = JNull then Inr [] else to_string x) of
        Inl m \<Rightarrow> Inl m
      | Inr a \<Rightarrow>
          if xs = [] then Inr a
          else (case elements_to_string xs of
                  Inl m \<Rightarrow> Inl m
                | Inr b \<Rightarrow> Inr (a @ '','' @ b)))"

text \<open>
  A template literal: each piece of text is followed by a substitution, converted from
  left to right; the first conversion that fails ends the evaluation.
\<close>

fun template :: "(string \<times> jsval) list \<Rightarrow> string \<Rightarrow> string + string" where
  "template [] end_text = Inr end_text"
| "template ((piece, v) # rest) end_text =
     (case to_string v of
        Inl m \<Rightarrow> Inl m
      | Inr s \<Rightarrow>
          (case template rest end_text of
             Inl m \<Rightarrow> Inl m
           | Inr t \<Rightarrow> Inr (piece @ s @ t)))"

text \<open>
  \<^verbatim>\<open>String.prototype.trim\<close>: white space and line terminators are removed from both
  ends. Characters are the code units below 256.
\<close>

definition is_js_space :: "char \<Rightarrow> bool" where
  "is_js_space c = (of_char c \<in> {9::nat, 10, 11, 12, 13, 32, 160})"

definition js_trim :: "string \<Rightarrow> string" where
  "js_trim s = rev (dropWhile is_js_space (rev (dropWhile is_js_space s)))"

section \<open>Errors and effects\<close>

text \<open>
  The two error classes of the script, and every other exception (a TypeError, a
  SyntaxError of \<^verbatim>\<open>JSON.parse\<close>, a failure of the transport). Each carries its message.
\<close>

datatype exn =
    RetryableError string
  | FatalError string
  | OtherError string

fun message :: "exn \<Rightarrow> string" where
  "message (RetryableError m) = m"
| "message (FatalError m) = m"
| "message (OtherError m) = m"

text \<open>The \<^verbatim>\<open>retryable\<close> field the constructors set; a foreign error has none.\<close>

fun retryable :: "exn \<Rightarrow> jsval" where
  "retryable (RetryableError m) = JBool True"
| "retryable (FatalError m) = JBool False"
| "retryable (OtherError m) = JUndefined"

record request =
  req_method :: string
  req_url :: string
  req_headers :: "(string \<times> string) list"
  req_body :: "(string \<times> string) list"

text \<open>
  A \<^verbatim>\<open>fetch\<close> response: the fields the script reads. \<^verbatim>\<open>text()\<close> and \<^verbatim>\<open>json()\<close>
  may reject.
\<close>

record response =
  ok :: bool
  status :: nat
  text_body :: "string + string"
  json_body :: "string + jsval"

text \<open>The Fetch standard sets \<^verbatim>\<open>ok\<close> exactly on the statuses 200 to 299.\<close>

definition response_wf :: "response \<Rightarrow> bool" where
  "response_wf r = (ok r = (200 \<le> status r \<and> status r \<le> 299))"

text \<open>What a handler does to the outside: console output and HTTP requests, in order.\<close>

datatype effect =
    Log string
  | LogError string
  | Http request

fun http_requests :: "effect list \<Rightarrow> request list" where
  "http_requests [] = []"
| "http_requests (Http r # es) = r # http_requests es"
| "http_requests (e # es) = http_requests es"

text \<open>
  The libraries and the outside world one invocation runs against:
  \<^item> \<open>decode_key k\<close> is \<^verbatim>\<open>JSON.parse(Buffer.from(k, 'base64').toString())\<close>;
  \<^item> \<open>base64url_json v\<close> is \<^verbatim>\<open>Buffer.from(JSON.stringify(v)).toString('base64url')\<close>;
  \<^item> \<open>rsa_sign key input\<close> is the RSA-SHA256 signature of \<^verbatim>\<open>crypto\<close>, in base64url;
  \<^item> \<open>json_parse\<close> is \<^verbatim>\<open>JSON.parse\<close>;
  \<^item> \<open>fetch\<close> answers a request or fails;
  \<^item> \<open>now_seconds\<close> is \<^verbatim>\<open>Math.floor(Date.now() / 1000)\<close>, \<open>now_iso\<close> is
    \<^verbatim>\<open>new Date().toISOString()\<close>.
\<close>

record world =
  decode_key :: "jsval \<Rightarrow> string + jsval"
  base64url_json :: "jsval \<Rightarrow> string"
  rsa_sign :: "jsval \<Rightarrow> string \<Rightarrow> string + string"
  json_parse :: "string \<Rightarrow> string + jsval"
  fetch :: "request \<Rightarrow> string + response"
  now_seconds :: nat
  now_iso :: string

text \<open>
  A computation returns a value or throws, and leaves the effects it performed.
\<close>

type_synonym ('e, 'a) effectful = "('e + 'a) \<times> effect list"

type_synonym 'a action = "(exn, 'a) effectful"

definition ret :: "'a \<Rightarrow> ('e, 'a) effectful" where
  "ret a = (Inr a, [])"

definition throw :: "'e \<Rightarrow> ('e, 'a) effectful" where
  "throw e = (Inl e, [])"

definition console_log :: "string \<Rightarrow> ('e, unit) effectful" where
  "console_log s = (Inr (), [Log s])"

definition console_error :: "string \<Rightarrow> ('e, unit) effectful" where
  "console_error s = (Inr (), [LogError s])"

text \<open>A library call: its exception is none of the script's two classes.\<close>

definition lib :: "string + 'a \<Rightarrow> 'a action" where
  "lib r = (case r of Inl m \<Rightarrow> (Inl (OtherError m), []) | Inr a \<Rightarrow> (Inr a, []))"

text \<open>Sequencing: the second computation runs only when the first returned.\<close>

definition bind :: "('e, 'a) effectful \<Rightarrow> ('a \<Rightarrow> ('e, 'b) effectful) \<Rightarrow> ('e, 'b) effectful" where
  "bind m f =
     (case m of
        (Inl e, t) \<Rightarrow> (Inl e, t)
      | (Inr a, t) \<Rightarrow> (case f a of (r, t') \<Rightarrow> (r, t @ t')))"

text \<open>\<^verbatim>\<open>try { m } catch (error) { h error }\<close>.\<close>

definition try_catch :: "('e, 'a) effectful \<Rightarrow> ('e \<Rightarrow> ('e, 'a) effectful) \<Rightarrow> ('e, 'a) effectful" where
  "try_catch m h =
     (case m of
        (Inl e, t) \<Rightarrow> (case h e of (r, t') \<Rightarrow> (r, t @ t'))
      | (Inr a, t) \<Rightarrow> (Inr a, t))"

definition do_fetch :: "world \<Rightarrow> request \<Rightarrow> response action" where
  "do_fetch w rq = (fst (lib (fetch w rq)), [Http rq])"

section \<open>The script: \<^verbatim>\<open>src/script.mjs\<close>\<close>

definition token_url :: string where
  "token_url = ''https://oauth2.googleapis.com/token''"

text \<open>
  \<^verbatim>\<open>getAccessToken(serviceAccountKey)\<close>: the signed assertion is built from the decoded
  key and exchanged at the token endpoint. The \<^verbatim>\<open>catch\<close> lets a \<^verbatim>\<open>FatalError\<close> through
  and wraps everything else.
\<close>

definition token_request :: "string \<Rightarrow> request" where
  "token_request jwt =
     \<lparr>req_method = ''POST'',
      req_url = token_url,
      req_headers = [(''Content-Type'', ''application/x-www-form-urlencoded'')],
      req_body = [(''grant_type'', ''urn:ietf:params:oauth:grant-type:jwt-bearer''),
                  (''assertion'', jwt)]\<rparr>"

definition getAccessToken_try :: "world \<Rightarrow> jsval \<Rightarrow> jsval action" where
  "getAccessToken_try w serviceAccountKey =
       (bind (lib (decode_key w serviceAccountKey)) (\<lambda>keyData.
        let now = now_seconds w;
            header = JObj [(''alg'', JStr ''RS256''), (''typ'', JStr ''JWT'')]
        in
        bind (lib (get_prop keyData ''client_email'')) (\<lambda>client_email.
        let payload = JObj
              [(''iss'', client_email),
               (''scope'', JStr ''https://www.googleapis.com/auth/cloud-platform''),
               (''aud'', JStr ''https://oauth2.googleapis.com/token''),
               (''exp'', js_nat (now + 3600)),
               (''iat'', js_nat now)];
            headerEncoded = base64url_json w header;
            payloadEncoded = base64url_json w payload;
            signatureInput = headerEncoded @ ''.'' @ payloadEncoded
        in
        bind (lib (get_prop keyData ''private_key'')) (\<lambda>private_key.
        bind (lib (rsa_sign w private_key signatureInput)) (\<lambda>signature.
        let jwt = signatureInput @ ''.'' @ signature in
        bind (do_fetch w (token_request jwt)) (\<lambda>tokenResponse.
        if \<not> ok tokenResponse then
          bind (lib (text_body tokenResponse)) (\<lambda>error.
          throw (FatalError (''Failed to get access token: '' @ error)))
        else
          bind (lib (json_body tokenResponse)) (\<lambda>tokenData.
          lib (get_prop tokenData ''access_token''))))))))"

definition getAccessToken_catch :: "exn \<Rightarrow> jsval action" where
  "getAccessToken_catch error =
     (case error of
        FatalError m \<Rightarrow> throw error
      | _ \<Rightarrow> throw (FatalError (''Invalid service account key: '' @ message error)))"

definition getAccessToken :: "world \<Rightarrow> jsval \<Rightarrow> jsval action" where
  "getAccessToken w serviceAccountKey =
     try_catch (getAccessToken_try w serviceAccountKey) getAccessToken_catch"

text \<open>The DELETE request, from the texts of its URL and of its authorization header.\<close>

definition delete_request :: "string \<Rightarrow> string \<Rightarrow> request" where
  "delete_request url authorization =
     \<lparr>req_method = ''DELETE'',
      req_url = url,
      req_headers = [(''Authorization'', authorization),
                     (''Content-Type'', ''application/json'')],
      req_body = []\<rparr>"

text \<open>
  \<^verbatim>\<open>deleteWorkforceUser(accessToken, projectId, workforcePoolId, subjectId)\<close>: the URL, the
  console line, then the options of \<^verbatim>\<open>fetch\<close> with the authorization header, then the one
  DELETE request; the status checks in the order of the source.
\<close>

definition deleteWorkforceUser :: "world \<Rightarrow> jsval \<Rightarrow> jsval \<Rightarrow> jsval \<Rightarrow> jsval \<Rightarrow> unit action" where
  "deleteWorkforceUser w accessToken projectId workforcePoolId subjectId =
     bind (lib (template
             [(''https://iam.googleapis.com/v1/locations/global/workforcePools/'', workforcePoolId),
              (''/subjects/'', subjectId)] [])) (\<lambda>url.
     bind (lib (template
             [(''Deleting workforce user: '', subjectId),
              ('' from pool: '', workforcePoolId)] [])) (\<lambda>line.
     bind (console_log line) (\<lambda>_.
     bind (lib (template [(''Bearer '', accessToken)] [])) (\<lambda>authorization.
     bind (do_fetch w (delete_request url authorization)) (\<lambda>response.
     if status response = 404 then
       bind (lib (template [(''Workforce user '', subjectId)]
                    '' not found, considering deletion successful'')) (\<lambda>line.
       console_log line)
     else if status response = 429 \<or> status response \<ge> 500 then
       bind (lib (text_body response)) (\<lambda>error.
       throw (RetryableError (''Google Cloud API error ('' @ string_of_nat (status response)
                               @ ''): '' @ error)))
     else if \<not> ok response then
       bind (lib (text_body response)) (\<lambda>error.
       throw (FatalError (''Failed to delete workforce user ('' @ string_of_nat (status response)
                           @ ''): '' @ error)))
     else
       bind (lib (template [(''Successfully deleted workforce user: '', subjectId)] [])) (\<lambda>line.
       console_log line))))))"

text \<open>
  \<^verbatim>\<open>validateInputs(params)\<close>: the loop over the required fields stops at the first one
  that is falsy, not a string, or blank after \<^verbatim>\<open>trim()\<close>.
\<close>

fun validate_fields :: "jsval \<Rightarrow> string list \<Rightarrow> unit action" where
  "validate_fields params [] = ret ()"
| "validate_fields params (field # rest) =
     bind (lib (get_prop params field)) (\<lambda>v.
     if \<not> truthy v \<or> typeof v \<noteq> ''string''
          \<or> (case v of JStr s \<Rightarrow> js_trim s = [] | _ \<Rightarrow> False)
     then throw (FatalError (''Missing or invalid required parameter: '' @ field))
     else validate_fields params rest)"

definition validateInputs :: "jsval \<Rightarrow> unit action" where
  "validateInputs params = validate_fields params [''workforce_pool_id'', ''subject_id'']"

text \<open>
  The block of \<^verbatim>\<open>invoke\<close> that settles \<^verbatim>\<open>finalProjectId\<close>: the parameter when it
  is truthy, else the \<^verbatim>\<open>project_id\<close> of the decoded key.
\<close>

definition finalProjectId :: "world \<Rightarrow> jsval \<Rightarrow> jsval \<Rightarrow> jsval action" where
  "finalProjectId w project_id service_account_key =
     (if \<not> truthy project_id then
        bind (lib (decode_key w service_account_key)) (\<lambda>keyData.
        bind (lib (get_prop keyData ''project_id'')) (\<lambda>key_project_id.
        if \<not> truthy key_project_id then
          throw (FatalError
            ''Project ID not found in service account key and not provided in parameters'')
        else ret key_project_id))
      else ret project_id)"

text \<open>The \<^verbatim>\<open>try\<close> block of \<^verbatim>\<open>invoke\<close>.\<close>

definition invoke_try :: "world \<Rightarrow> jsval \<Rightarrow> jsval \<Rightarrow> jsval action" where
  "invoke_try w params context =
     bind (validateInputs params) (\<lambda>_.
     bind (lib (destructurable ''workforce_pool_id'' ''params'' params)) (\<lambda>_.
     let workforce_pool_id = get_prop_opt params ''workforce_pool_id'';
         subject_id = get_prop_opt params ''subject_id'';
         project_id = get_prop_opt params ''project_id''
     in
     bind (lib (template [(''Processing workforce pool: '', workforce_pool_id)] [])) (\<lambda>line.
     bind (console_log line) (\<lambda>_.
     bind (lib (template [(''Deleting subject: '', subject_id)] [])) (\<lambda>line.
     bind (console_log line) (\<lambda>_.
     bind (lib (get_prop context ''secrets'')) (\<lambda>secrets.
     let service_account_key = get_prop_opt secrets ''service_account_key'' in
     if \<not> truthy service_account_key then
       throw (FatalError ''Missing required secret: service_account_key'')
     else
       bind (getAccessToken w service_account_key) (\<lambda>accessToken.
       bind (finalProjectId w project_id service_account_key) (\<lambda>final_project_id.
       bind (lib (template [(''Using project ID: '', final_project_id)] [])) (\<lambda>line.
       bind (console_log line) (\<lambda>_.
       bind (deleteWorkforceUser w accessToken final_project_id workforce_pool_id subject_id) (\<lambda>_.
       let result = JObj
             [(''status'', JStr ''success''),
              (''workforce_pool_id'', workforce_pool_id),
              (''subject_id'', subject_id),
              (''deleted_at'', JStr (now_iso w))]
       in
       bind (console_log ''Workforce user deletion completed successfully'') (\<lambda>_.
       ret result)))))))))))))"

text \<open>The \<^verbatim>\<open>catch\<close> block of \<^verbatim>\<open>invoke\<close>.\<close>

definition invoke_catch :: "exn \<Rightarrow> jsval action" where
  "invoke_catch error =
     bind (console_error (''Error deleting workforce user: '' @ message error)) (\<lambda>_.
     case error of
       RetryableError m \<Rightarrow> throw error
     | FatalError m \<Rightarrow> throw error
     | OtherError m \<Rightarrow> throw (FatalError (''Unexpected error: '' @ message error)))"

definition invoke :: "world \<Rightarrow> jsval \<Rightarrow> jsval \<Rightarrow> jsval action" where
  "invoke w params context =
     bind (console_log ''Starting Google Delete Workforce User action'') (\<lambda>_.
     try_catch (invoke_try w params context) invoke_catch)"

text \<open>
  The \<^verbatim>\<open>error\<close> handler. Its console line converts the two identifiers, then reads
  \<^verbatim>\<open>error.message\<close> (a TypeError when \<^verbatim>\<open>params.error\<close> is missing) and converts it.
\<close>

definition error :: "jsval \<Rightarrow> jsval \<Rightarrow> jsval action" where
  "error params context =
     bind (lib (destructurable ''error'' ''params'' params)) (\<lambda>_.
     let err = get_prop_opt params ''error'';
         workforce_pool_id = get_prop_opt params ''workforce_pool_id'';
         subject_id = get_prop_opt params ''subject_id''
     in
     bind (lib (template
             [(''Error handler called for workforce pool '', workforce_pool_id),
              ('', subject '', subject_id)] '': '')) (\<lambda>line_start.
     bind (lib (get_prop err ''message'')) (\<lambda>error_message.
     bind (lib (to_string error_message)) (\<lambda>message_text.
     bind (console_error (line_start @ message_text)) (\<lambda>_.
     bind (lib (get_prop err ''retryable'')) (\<lambda>error_retryable.
     if truthy error_retryable then
       bind (console_log ''Error is retryable, will be retried by job scheduler'') (\<lambda>_.
       ret (JObj
         [(''status'', JStr ''failed''),
          (''retryable'', JBool True),
          (''error'', error_message),
          (''workforce_pool_id'', workforce_pool_id),
          (''subject_id'', subject_id)]))
     else
       bind (console_error ''Fatal error encountered, will not retry'') (\<lambda>_.
       ret (JObj
         [(''status'', JStr ''failed''),
          (''retryable'', JBool False),
          (''error'', error_message),
          (''workforce_pool_id'', workforce_pool_id),
          (''subject_id'', subject_id)]))))))))"


section \<open>The variant built on \<^verbatim>\<open>@sgnl-actions/utils\<close>\<close>

text \<open>
  The second script of the repository (camel-case parameters) throws plain \<^verbatim>\<open>Error\<close>
  objects; the one it builds for a failed delete carries a \<^verbatim>\<open>statusCode\<close>.
\<close>

datatype plain_error = PlainError string "nat option"

definition lib_plain :: "string + 'a \<Rightarrow> (plain_error, 'a) effectful" where
  "lib_plain r = (case r of Inl m \<Rightarrow> (Inl (PlainError m None), []) | Inr a \<Rightarrow> (Inr a, []))"

definition do_fetch_plain :: "world \<Rightarrow> request \<Rightarrow> (plain_error, response) effectful" where
  "do_fetch_plain w rq = (fst (lib_plain (fetch w rq)), [Http rq])"

text \<open>
  The two helpers imported from the external package \<^verbatim>\<open>@sgnl-actions/utils\<close> are
  parameters; the requests they may send themselves are not recorded.
\<close>

record utils =
  getBaseURL :: "jsval \<Rightarrow> jsval \<Rightarrow> string + string"
  getAuthorizationHeader :: "jsval \<Rightarrow> string + string"

record delete_outcome =
  result_success :: bool
  result_status :: nat
  result_data :: jsval

definition delete_request_utils :: "string \<Rightarrow> string \<Rightarrow> request" where
  "delete_request_utils url authHeader =
     \<lparr>req_method = ''DELETE'',
      req_url = url,
      req_headers = [(''Authorization'', authHeader)],
      req_body = []\<rparr>"

text \<open>
  Its \<^verbatim>\<open>deleteWorkforceUser(workforcePoolId, subjectId, baseUrl, authHeader)\<close> never
  throws on a status: it returns \<^verbatim>\<open>{success: response.ok, status, data}\<close>, the body
  parsed when it is non-empty JSON and \<^verbatim>\<open>null\<close> otherwise.
\<close>

definition deleteWorkforceUser_utils ::
  "world \<Rightarrow> jsval \<Rightarrow> jsval \<Rightarrow> string \<Rightarrow> string \<Rightarrow> (plain_error, delete_outcome) effectful" where
  "deleteWorkforceUser_utils w workforcePoolId subjectId baseUrl authHeader =
     bind (lib_plain (template
             [(baseUrl @ ''/v1/locations/global/workforcePools/'', workforcePoolId),
              (''/subjects/'', subjectId)] [])) (\<lambda>url.
     bind (do_fetch_plain w (delete_request_utils url authHeader)) (\<lambda>response.
     let responseData =
           (case text_body response of
              Inl _ \<Rightarrow> JNull
            | Inr text \<Rightarrow>
                if text \<noteq> [] then (case json_parse w text of Inl _ \<Rightarrow> JNull | Inr v \<Rightarrow> v)
                else JNull)
     in
     ret \<lparr>result_success = ok response,
          result_status = status response,
          result_data = responseData\<rparr>))"

text \<open>
  Its \<^verbatim>\<open>invoke\<close>. The first console line is printed before the identifiers are
  validated. The outcome has no \<^verbatim>\<open>error\<close> field, so the message of a failed delete is
  always built from the status code.
\<close>

definition invoke_utils :: "utils \<Rightarrow> world \<Rightarrow> jsval \<Rightarrow> jsval \<Rightarrow> (plain_error, jsval) effectful" where
  "invoke_utils u w params context =
     bind (lib_plain (destructurable ''workforcePoolId'' ''params'' params)) (\<lambda>_.
     let workforcePoolId = get_prop_opt params ''workforcePoolId'';
         subjectId = get_prop_opt params ''subjectId''
     in
     bind (lib_plain (template
             [(''Starting Google Workforce user deletion for subject '', subjectId),
              ('' in pool '', workforcePoolId)] [])) (\<lambda>line.
     bind (console_log line) (\<lambda>_.
     if \<not> truthy subjectId \<or> typeof subjectId \<noteq> ''string'' then
       throw (PlainError ''Invalid or missing subjectId parameter'' None)
     else if \<not> truthy workforcePoolId \<or> typeof workforcePoolId \<noteq> ''string'' then
       throw (PlainError ''Invalid or missing workforcePoolId parameter'' None)
     else
       let baseUrl = (case getBaseURL u params context of
                        Inl _ \<Rightarrow> ''https://iam.googleapis.com''
                      | Inr b \<Rightarrow> b)
       in
       bind (lib_plain (getAuthorizationHeader u context)) (\<lambda>authHeader.
       bind (deleteWorkforceUser_utils w workforcePoolId subjectId baseUrl authHeader) (\<lambda>result.
       if result_success result then
         bind (lib_plain (template [(''Successfully deleted workforce user '', subjectId)] []))
           (\<lambda>line.
         bind (console_log line) (\<lambda>_.
         ret (JObj
           [(''subjectId'', subjectId),
            (''workforcePoolId'', workforcePoolId),
            (''deleted'', JBool True),
            (''deletedAt'', JStr (now_iso w))])))
       else
         let statusCode = result_status result in
         if statusCode = 404 then
           bind (lib_plain (template [(''Workforce user '', subjectId)]
                              '' not found - already deleted'')) (\<lambda>line.
           bind (console_log line) (\<lambda>_.
           ret (JObj
             [(''subjectId'', subjectId),
              (''workforcePoolId'', workforcePoolId),
              (''deleted'', JBool True),
              (''alreadyDeleted'', JBool True),
              (''deletedAt'', JStr (now_iso w))])))
         else
           let errorMessage = ''Failed to delete workforce user: '' @ string_of_nat statusCode in
           bind (console_error ''Google API error: undefined'') (\<lambda>_.
           throw (PlainError errorMessage (Some statusCode))))))))"

section \<open>Notions used by the properties\<close>

text \<open>An identifier that passes validation: a string that is not blank.\<close>

definition valid_id :: "jsval \<Rightarrow> bool" where
  "valid_id v = (case v of JStr s \<Rightarrow> js_trim s \<noteq> [] | _ \<Rightarrow> False)"

text \<open>
  An identifier that is missing, not a string, empty or made of white space only.
\<close>

definition invalid_param :: "jsval \<Rightarrow> bool" where
  "invalid_param v = (case v of JStr s \<Rightarrow> list_all is_js_space s | _ \<Rightarrow> True)"

text \<open>
  A value that a template literal can print, and the text printed: every primitive, every
  plain object without an own \<^verbatim>\<open>toString\<close>, every array of such values.
\<close>

definition printable :: "jsval \<Rightarrow> bool" where
  "printable v = (case to_string v of Inl m \<Rightarrow> False | Inr s \<Rightarrow> True)"

definition printed :: "jsval \<Rightarrow> string" where
  "printed v = (case to_string v of Inl m \<Rightarrow> [] | Inr s \<Rightarrow> s)"

text \<open>The secret \<^verbatim>\<open>context.secrets?.service_account_key\<close>.\<close>

definition service_account_key_of :: "jsval \<Rightarrow> jsval" where
  "service_account_key_of context =
     (case get_prop context ''secrets'' of
        Inl _ \<Rightarrow> JUndefined
      | Inr secrets \<Rightarrow> get_prop_opt secrets ''service_account_key'')"

text \<open>
  Validation passes, the secret is present and the token exchange returns
  \<open>accessToken\<close>.
\<close>

definition authenticated :: "world \<Rightarrow> (string \<times> jsval) list \<Rightarrow> jsval \<Rightarrow> jsval \<Rightarrow> bool" where
  "authenticated w ps context accessToken =
     (valid_id (own_prop ps ''workforce_pool_id'') \<and>
      valid_id (own_prop ps ''subject_id'') \<and>
      truthy (service_account_key_of context) \<and>
      fst (getAccessToken w (service_account_key_of context)) = Inr accessToken)"

text \<open>
  Moreover the project id is settled as \<open>projectId\<close>, and it and the access token can be
  printed into the console line and the authorization header: the invocation reaches its
  delete call and sends the DELETE request.
\<close>

definition reaches_delete ::
  "world \<Rightarrow> (string \<times> jsval) list \<Rightarrow> jsval \<Rightarrow> jsval \<Rightarrow> jsval \<Rightarrow> bool" where
  "reaches_delete w ps context accessToken projectId =
     (authenticated w ps context accessToken \<and>
      fst (finalProjectId w (own_prop ps ''project_id'') (service_account_key_of context))
        = Inr projectId \<and>
      printable projectId \<and> printable accessToken)"

text \<open>The effects of a computation, after the effects \<open>t\<close>.\<close>

definition prepend :: "effect list \<Rightarrow> ('e, 'a) effectful \<Rightarrow> ('e, 'a) effectful" where
  "prepend t m = (fst m, t @ snd m)"

text \<open>The DELETE request of an invocation and the result of a successful one.\<close>

definition delete_request_of :: "(string \<times> jsval) list \<Rightarrow> jsval \<Rightarrow> request" where
  "delete_request_of ps accessToken =
     delete_request
       (''https://iam.googleapis.com/v1/locations/global/workforcePools/''
          @ printed (own_prop ps ''workforce_pool_id'')
          @ ''/subjects/'' @ printed (own_prop ps ''subject_id''))
       (''Bearer '' @ printed accessToken)"

definition success_result :: "world \<Rightarrow> (string \<times> jsval) list \<Rightarrow> jsval" where
  "success_result w ps = JObj
     [(''status'', JStr ''success''),
      (''workforce_pool_id'', own_prop ps ''workforce_pool_id''),
      (''subject_id'', own_prop ps ''subject_id''),
      (''deleted_at'', JStr (now_iso w))]"

text \<open>The DELETE request of an invocation of the variant.\<close>

definition delete_request_of_utils ::
  "utils \<Rightarrow> (string \<times> jsval) list \<Rightarrow> jsval \<Rightarrow> string \<Rightarrow> request" where
  "delete_request_of_utils u qs context authHeader =
     delete_request_utils
       ((case getBaseURL u (JObj qs) context of
           Inl _ \<Rightarrow> ''https://iam.googleapis.com''
         | Inr b \<Rightarrow> b)
          @ ''/v1/locations/global/workforcePools/'' @ printed (own_prop qs ''workforcePoolId'')
          @ ''/subjects/'' @ printed (own_prop qs ''subjectId''))
       authHeader"

text \<open>The property names of an object, in order.\<close>

fun object_keys :: "jsval \<Rightarrow> string list" where
  "object_keys (JObj ps) = map fst ps"
| "object_keys v = []"

text \<open>The \<^verbatim>\<open>retryable\<close> field of the error an outcome carries, if it is an error.\<close>

definition thrown_retryable :: "exn + 'a \<Rightarrow> jsval option" where
  "thrown_retryable r = (case r of Inl e \<Rightarrow> Some (retryable e) | Inr a \<Rightarrow> None)"

text \<open>The error that leaves the \<^verbatim>\<open>catch\<close> block of \<^verbatim>\<open>invoke\<close> for a caught one.\<close>

definition classify :: "exn \<Rightarrow> exn" where
  "classify e = (case e of OtherError m \<Rightarrow> FatalError (''Unexpected error: '' @ m) | _ \<Rightarrow> e)"

definition is_delete :: "request \<Rightarrow> bool" where
  "is_delete rq = (req_method rq = ''DELETE'')"

definition is_token_post :: "request \<Rightarrow> bool" where
  "is_token_post rq = (req_method rq = ''POST'' \<and> req_url rq = token_url)"

section \<open>Example inputs\<close>

text \<open>The fixtures of \<^verbatim>\<open>tests/script.test.js\<close>.\<close>

definition example_key :: jsval where
  "example_key = JStr ''eyJjbGllbnRfZW1haWwiOiJ0ZXN0QGV4YW1wbGUifQ==''"

definition example_key_data :: jsval where
  "example_key_data = JObj
     [(''client_email'', JStr ''test@example-project.iam.gserviceaccount.com''),
      (''private_key'', JStr ''PRIVATE KEY''),
      (''project_id'', JStr ''test-project-123'')]"

text \<open>A key file without a \<^verbatim>\<open>project_id\<close>.\<close>

definition example_key_data_no_project :: jsval where
  "example_key_data_no_project = JObj
     [(''client_email'', JStr ''test@example-project.iam.gserviceaccount.com''),
      (''private_key'', JStr ''PRIVATE KEY'')]"

definition token_response :: response where
  "token_response =
     \<lparr>ok = True, status = 200, text_body = Inr [],
      json_body = Inr (JObj [(''access_token'', JStr ''mock-access-token'')])\<rparr>"

definition response_of :: "nat \<Rightarrow> string \<Rightarrow> response" where
  "response_of st b =
     \<lparr>ok = (200 \<le> st \<and> st \<le> 299), status = st, text_body = Inr b,
      json_body = Inl ''Unexpected token''\<rparr>"

text \<open>
  A world whose token endpoint answers \<open>token_reply\<close> and whose API answers every
  other request with \<open>delete_reply\<close>; the key decodes to \<open>key_data\<close>.
\<close>

definition example_world :: "jsval \<Rightarrow> response \<Rightarrow> response \<Rightarrow> world" where
  "example_world key_data token_reply delete_reply =
     \<lparr>decode_key = (\<lambda>k. if k = example_key then Inr key_data else Inl ''Unexpected token''),
      base64url_json = (\<lambda>v. ''e30''),
      rsa_sign = (\<lambda>k s. Inr ''c2ln''),
      json_parse = (\<lambda>s. Inl ''Unexpected token''),
      fetch = (\<lambda>rq. if req_url rq = token_url then Inr token_reply else Inr delete_reply),
      now_seconds = 1700000000,
      now_iso = ''2023-11-14T22:13:20.000Z''\<rparr>"

definition example_context :: jsval where
  "example_context = JObj [(''secrets'', JObj [(''service_account_key'', example_key)])]"

definition example_fields :: "(string \<times> jsval) list" where
  "example_fields =
     [(''workforce_pool_id'', JStr ''test-pool-123''),
      (''subject_id'', JStr ''user123@example.com'')]"

definition example_utils :: utils where
  "example_utils =
     \<lparr>getBaseURL = (\<lambda>p c. Inl ''No URL specified''),
      getAuthorizationHeader = (\<lambda>c. Inr ''Bearer mock-access-token'')\<rparr>"

definition example_fields_utils :: "(string \<times> jsval) list" where
  "example_fields_utils =
     [(''workforcePoolId'', JStr ''test-pool-123''),
      (''subjectId'', JStr ''user123@example.com'')]"

text \<open>A response whose body cannot be read: \<^verbatim>\<open>text()\<close> rejects with the message \<open>m\<close>.\<close>

definition unreadable_response :: "nat \<Rightarrow> string \<Rightarrow> response" where
  "unreadable_response st m =
     \<lparr>ok = (200 \<le> st \<and> st \<le> 299), status = st, text_body = Inl m, json_body = Inl m\<rparr>"

text \<open>The JSON value \<^verbatim>\<open>{"toString": null}\<close>, which no template literal can print.\<close>

definition unprintable :: jsval where
  "unprintable = JObj [(''toString'', JNull)]"

section \<open>Laws of the effect combinators\<close>

lemma bind_ret: "bind (ret a) f = f a"
  by (cases "f a") (simp add: bind_def ret_def)

lemma bind_throw: "bind (throw e) f = throw e"
  by (simp add: bind_def throw_def)

lemma bind_lib: "bind (lib x) f = (case x of Inl m \<Rightarrow> throw (OtherError m) | Inr a \<Rightarrow> f a)"
  by (cases x; cases "f (projr x)") (simp_all add: bind_def lib_def throw_def)

lemma bind_lib_plain:
  "bind (lib_plain x) f = (case x of Inl m \<Rightarrow> throw (PlainError m None) | Inr a \<Rightarrow> f a)"
  by (cases x; cases "f (projr x)") (simp_all add: bind_def lib_plain_def throw_def)

lemma bind_console_log: "bind (console_log s) f = prepend [Log s] (f ())"
  by (cases "f ()") (simp add: bind_def console_log_def prepend_def)

lemma bind_console_error: "bind (console_error s) f = prepend [LogError s] (f ())"
  by (cases "f ()") (simp add: bind_def console_error_def prepend_def)

lemma bind_do_fetch:
  "bind (do_fetch w rq) f =
     prepend [Http rq] (case fetch w rq of Inl m \<Rightarrow> throw (OtherError m) | Inr r \<Rightarrow> f r)"
  by (cases "fetch w rq"; cases "f (projr (fetch w rq))")
     (simp_all add: bind_def do_fetch_def lib_def prepend_def throw_def)

lemma bind_do_fetch_plain:
  "bind (do_fetch_plain w rq) f =
     prepend [Http rq] (case fetch w rq of Inl m \<Rightarrow> throw (PlainError m None) | Inr r \<Rightarrow> f r)"
  by (cases "fetch w rq"; cases "f (projr (fetch w rq))")
     (simp_all add: bind_def do_fetch_plain_def lib_plain_def prepend_def throw_def)

lemma bind_prepend: "bind (prepend t m) f = prepend t (bind m f)"
  by (cases m; cases "fst m") (auto simp: bind_def prepend_def split: prod.splits)

lemma bind_returned: "fst m = Inr a \<Longrightarrow> bind m f = prepend (snd m) (f a)"
  by (cases m; cases "f a") (simp add: bind_def prepend_def)

lemma bind_thrown: "fst m = Inl e \<Longrightarrow> bind m f = prepend (snd m) (throw e)"
  by (cases m) (simp add: bind_def prepend_def throw_def)

lemma try_catch_ret: "try_catch (ret a) h = ret a"
  by (simp add: try_catch_def ret_def)

lemma try_catch_throw: "try_catch (throw e) h = h e"
  by (cases "h e") (simp add: try_catch_def throw_def)

lemma try_catch_prepend: "try_catch (prepend t m) h = prepend t (try_catch m h)"
  by (cases m; cases "fst m") (auto simp: try_catch_def prepend_def split: prod.splits)

lemma try_catch_returned: "fst m = Inr a \<Longrightarrow> try_catch m h = m"
  by (cases m) (simp add: try_catch_def)

lemma try_catch_thrown: "fst m = Inl e \<Longrightarrow> try_catch m h = prepend (snd m) (h e)"
  by (cases m; cases "h e") (simp add: try_catch_def prepend_def)

lemma fst_prepend: "fst (prepend t m) = fst m"
  by (simp add: prepend_def)

lemma snd_prepend: "snd (prepend t m) = t @ snd m"
  by (simp add: prepend_def)

lemma prepend_prepend: "prepend t (prepend t' m) = prepend (t @ t') m"
  by (simp add: prepend_def)

lemma fst_ret: "fst (ret a) = Inr a"
  by (simp add: ret_def)

lemma snd_ret: "snd (ret a) = []"
  by (simp add: ret_def)

lemma fst_throw: "fst (throw e) = Inl e"
  by (simp add: throw_def)

lemma snd_throw: "snd (throw e) = []"
  by (simp add: throw_def)

lemma snd_lib: "snd (lib x) = []"
  by (cases x) (simp_all add: lib_def)

lemma fst_lib: "fst (lib x) = (case x of Inl m \<Rightarrow> Inl (OtherError m) | Inr a \<Rightarrow> Inr a)"
  by (cases x) (simp_all add: lib_def)

lemma snd_console_log: "snd (console_log s :: ('e, unit) effectful) = [Log s]"
  by (simp add: console_log_def)

lemma fst_console_log: "fst (console_log s :: ('e, unit) effectful) = Inr ()"
  by (simp add: console_log_def)

lemmas run_simps = snd_lib fst_lib snd_console_log fst_console_log bind_ret bind_throw bind_lib bind_console_log bind_console_error bind_do_fetch
  bind_prepend try_catch_ret try_catch_throw try_catch_prepend fst_prepend snd_prepend
  prepend_prepend fst_ret snd_ret fst_throw snd_throw

lemma printable_to_string: "printable v \<Longrightarrow> to_string v = Inr (printed v)"
  by (cases "to_string v") (simp_all add: printable_def printed_def)

lemma to_string_printable: "to_string v = Inr s \<Longrightarrow> printable v \<and> printed v = s"
  by (simp add: printable_def printed_def)

lemma to_string_unprintable: "to_string v = Inl m \<Longrightarrow> \<not> printable v"
  by (simp add: printable_def)

lemma printed_JStr: "printed (JStr s) = s"
  by (simp add: printed_def)

lemma printable_JStr: "printable (JStr s)"
  by (simp add: printable_def)

lemma valid_id_JStr: "valid_id v \<Longrightarrow> \<exists>s. v = JStr s"
  by (cases v) (simp_all add: valid_id_def)

lemma snd_lib_plain: "snd (lib_plain x) = []"
  by (cases x) (simp_all add: lib_plain_def)

lemma http_requests_append: "http_requests (xs @ ys) = http_requests xs @ http_requests ys"
  by (induction xs rule: http_requests.induct) simp_all

section \<open>Validation\<close>

lemma js_trim_Nil_iff: "js_trim s = [] \<longleftrightarrow> list_all is_js_space s"
proof
  assume "js_trim s = []"
  then have all: "\<forall>c \<in> set (dropWhile is_js_space s). is_js_space c"
    by (simp add: js_trim_def dropWhile_eq_Nil_conv)
  have "dropWhile is_js_space s = []"
  proof (rule ccontr)
    assume ne: "dropWhile is_js_space s \<noteq> []"
    then have "\<not> is_js_space (hd (dropWhile is_js_space s))"
      by (rule hd_dropWhile)
    moreover from ne have "hd (dropWhile is_js_space s) \<in> set (dropWhile is_js_space s)"
      by simp
    ultimately show False using all by blast
  qed
  then show "list_all is_js_space s"
    by (simp add: list_all_iff)
next
  assume "list_all is_js_space s"
  then have d: "dropWhile is_js_space s = []"
    by (simp add: list_all_iff)
  show "js_trim s = []"
    unfolding js_trim_def d by simp
qed

lemma valid_id_iff: "valid_id v \<longleftrightarrow> \<not> invalid_param v"
  by (cases v) (simp_all add: valid_id_def invalid_param_def js_trim_Nil_iff)

lemma rejected_iff:
  "(\<not> truthy v \<or> typeof v \<noteq> ''string'' \<or> (case v of JStr s \<Rightarrow> js_trim s = [] | _ \<Rightarrow> False))
     \<longleftrightarrow> invalid_param v"
  by (cases v) (auto simp: invalid_param_def js_trim_Nil_iff)

lemma validate_fields_Cons:
  "validate_fields (JObj ps) (field # rest) =
     (if invalid_param (own_prop ps field)
      then throw (FatalError (''Missing or invalid required parameter: '' @ field))
      else validate_fields (JObj ps) rest)"
  using rejected_iff [of "own_prop ps field"]
  by (simp add: bind_lib del: truthy.simps typeof.simps)

lemma validateInputs_obj:
  "validateInputs (JObj ps) =
     (if invalid_param (own_prop ps ''workforce_pool_id'')
      then throw (FatalError ''Missing or invalid required parameter: workforce_pool_id'')
      else if invalid_param (own_prop ps ''subject_id'')
      then throw (FatalError ''Missing or invalid required parameter: subject_id'')
      else ret ())"
  unfolding validateInputs_def validate_fields_Cons by simp

section \<open>The token exchange and the delete call\<close>

lemma getAccessToken_catch_fatal: "\<exists>m. getAccessToken_catch e = throw (FatalError m)"
  by (cases e) (auto simp: getAccessToken_catch_def)

lemma getAccessToken_fatal:
  assumes "fst (getAccessToken w k) = Inl e"
  shows "\<exists>m. e = FatalError m"
proof (cases "fst (getAccessToken_try w k)")
  case (Inl e0)
  obtain m where "getAccessToken_catch e0 = throw (FatalError m)"
    using getAccessToken_catch_fatal by blast
  with Inl assms show ?thesis
    by (auto simp: getAccessToken_def try_catch_thrown fst_prepend fst_throw)
next
  case (Inr a)
  with assms show ?thesis
    by (simp add: getAccessToken_def try_catch_returned)
qed

lemma getAccessToken_catch_snd: "snd (getAccessToken_catch e) = []"
  by (cases e) (simp_all add: getAccessToken_catch_def snd_throw)

lemma getAccessToken_snd: "snd (getAccessToken w k) = snd (getAccessToken_try w k)"
  by (cases "fst (getAccessToken_try w k)")
     (simp_all add: getAccessToken_def try_catch_thrown try_catch_returned snd_prepend
        getAccessToken_catch_snd)

lemma getAccessToken_returned:
  assumes "fst (getAccessToken w k) = Inr tok"
  shows "fst (getAccessToken_try w k) = Inr tok"
proof (cases "fst (getAccessToken_try w k)")
  case (Inl e0)
  obtain m where "getAccessToken_catch e0 = throw (FatalError m)"
    using getAccessToken_catch_fatal by blast
  with Inl assms show ?thesis
    by (simp add: getAccessToken_def try_catch_thrown fst_prepend fst_throw)
next
  case (Inr a)
  with assms show ?thesis
    by (simp add: getAccessToken_def try_catch_returned)
qed

lemma get_prop_total: "get_prop v k = Inr x \<Longrightarrow> \<exists>y. get_prop v k' = Inr y"
  by (cases v) simp_all

lemma getAccessToken_Inr_decodes:
  assumes "fst (getAccessToken w k) = Inr tok"
  shows "\<exists>keyData v. decode_key w k = Inr keyData \<and> get_prop keyData ''project_id'' = Inr v"
proof -
  have tr: "fst (getAccessToken_try w k) = Inr tok"
    using assms by (rule getAccessToken_returned)
  from tr obtain keyData where kd: "decode_key w k = Inr keyData"
    by (cases "decode_key w k") (simp_all add: getAccessToken_try_def run_simps)
  with tr obtain ce where "get_prop keyData ''client_email'' = Inr ce"
    by (cases "get_prop keyData ''client_email''")
       (simp_all add: getAccessToken_try_def run_simps Let_def)
  then obtain v where "get_prop keyData ''project_id'' = Inr v"
    by (blast dest: get_prop_total)
  with kd show ?thesis by blast
qed

lemma getAccessToken_try_shape:
  "(\<exists>e. getAccessToken_try w k = throw e)
   \<or> (\<exists>jwt. getAccessToken_try w k =
         prepend [Http (token_request jwt)]
           (case fetch w (token_request jwt) of
              Inl m \<Rightarrow> throw (OtherError m)
            | Inr tokenResponse \<Rightarrow>
                if \<not> ok tokenResponse then
                  bind (lib (text_body tokenResponse)) (\<lambda>error.
                  throw (FatalError (''Failed to get access token: '' @ error)))
                else
                  bind (lib (json_body tokenResponse)) (\<lambda>tokenData.
                  lib (get_prop tokenData ''access_token''))))"
proof (cases "decode_key w k")
  case (Inl m)
  then show ?thesis
    by (auto simp: getAccessToken_try_def bind_lib)
next
  case kd: (Inr keyData)
  show ?thesis
  proof (cases "get_prop keyData ''client_email''")
    case (Inl m)
    with kd show ?thesis
      by (auto simp: getAccessToken_try_def bind_lib Let_def)
  next
    case ce: (Inr client_email)
    show ?thesis
    proof (cases "get_prop keyData ''private_key''")
      case (Inl m)
      with kd ce show ?thesis
        by (auto simp: getAccessToken_try_def bind_lib Let_def)
    next
      case pk: (Inr private_key)
      show ?thesis
      proof (cases "rsa_sign w private_key
          (base64url_json w (JObj [(''alg'', JStr ''RS256''), (''typ'', JStr ''JWT'')]) @ ''.'' @
           base64url_json w (JObj
              [(''iss'', client_email),
               (''scope'', JStr ''https://www.googleapis.com/auth/cloud-platform''),
               (''aud'', JStr ''https://oauth2.googleapis.com/token''),
               (''exp'', js_nat (now_seconds w + 3600)),
               (''iat'', js_nat (now_seconds w))]))")
        case (Inl m)
        with kd ce pk show ?thesis
          by (auto simp: getAccessToken_try_def bind_lib Let_def)
      next
        case sg: (Inr signature)
        have "\<exists>jwt. getAccessToken_try w k =
         prepend [Http (token_request jwt)]
           (case fetch w (token_request jwt) of
              Inl m \<Rightarrow> throw (OtherError m)
            | Inr tokenResponse \<Rightarrow>
                if \<not> ok tokenResponse then
                  bind (lib (text_body tokenResponse)) (\<lambda>error.
                  throw (FatalError (''Failed to get access token: '' @ error)))
                else
                  bind (lib (json_body tokenResponse)) (\<lambda>tokenData.
                  lib (get_prop tokenData ''access_token'')))"
          using kd ce pk sg
          by (auto simp: getAccessToken_try_def bind_lib bind_do_fetch Let_def)
        then show ?thesis by blast
      qed
    qed
  qed
qed

lemma token_reply_snd:
  "snd (case x of
          Inl m \<Rightarrow> throw (OtherError m)
        | Inr tokenResponse \<Rightarrow>
            if \<not> ok tokenResponse then
              bind (lib (text_body tokenResponse)) (\<lambda>error.
              throw (FatalError (''Failed to get access token: '' @ error)))
            else
              bind (lib (json_body tokenResponse)) (\<lambda>tokenData.
              lib (get_prop tokenData ''access_token''))) = []"
  by (simp add: run_simps split: sum.split)

lemma getAccessToken_try_http:
  "http_requests (snd (getAccessToken_try w k)) = []
   \<or> (\<exists>jwt. http_requests (snd (getAccessToken_try w k)) = [token_request jwt])"
  using getAccessToken_try_shape [of w k]
  by (auto simp: snd_throw snd_prepend token_reply_snd)

lemma getAccessToken_exchange:
  assumes "Http rq \<in> set (snd (getAccessToken w k))" "fetch w rq = Inr r" "\<not> ok r"
  shows "\<exists>m. fst (getAccessToken w k) = Inl (FatalError m)
           \<and> (\<forall>b. text_body r = Inr b \<longrightarrow> m = ''Failed to get access token: '' @ b)"
proof -
  have sent: "Http rq \<in> set (snd (getAccessToken_try w k))"
    using assms(1) by (simp add: getAccessToken_snd)
  from getAccessToken_try_shape [of w k] sent obtain jwt where
    shape: "getAccessToken_try w k =
         prepend [Http (token_request jwt)]
           (case fetch w (token_request jwt) of
              Inl m \<Rightarrow> throw (OtherError m)
            | Inr tokenResponse \<Rightarrow>
                if \<not> ok tokenResponse then
                  bind (lib (text_body tokenResponse)) (\<lambda>error.
                  throw (FatalError (''Failed to get access token: '' @ error)))
                else
                  bind (lib (json_body tokenResponse)) (\<lambda>tokenData.
                  lib (get_prop tokenData ''access_token'')))"
    by (auto simp: snd_throw)
  with sent have rq: "rq = token_request jwt"
    by (simp add: snd_prepend token_reply_snd)
  have tried: "fst (getAccessToken_try w k) =
      (case text_body r of
         Inl m \<Rightarrow> Inl (OtherError m)
       | Inr b \<Rightarrow> Inl (FatalError (''Failed to get access token: '' @ b)))"
    using assms(2,3) unfolding shape rq [symmetric]
    by (simp add: run_simps split: sum.split)
  show ?thesis
  proof (cases "text_body r")
    case (Inl m)
    with tried show ?thesis
      by (simp add: getAccessToken_def try_catch_thrown fst_prepend getAccessToken_catch_def
            fst_throw)
  next
    case (Inr b)
    with tried show ?thesis
      by (simp add: getAccessToken_def try_catch_thrown fst_prepend getAccessToken_catch_def
            fst_throw)
  qed
qed

lemma deleteWorkforceUser_eq:
  assumes "to_string accessToken = Inr t"
  shows "deleteWorkforceUser w accessToken projectId (JStr pool) (JStr subject) =
     prepend
       [Log (''Deleting workforce user: '' @ subject @ '' from pool: '' @ pool),
        Http (delete_request
                (''https://iam.googleapis.com/v1/locations/global/workforcePools/'' @ pool
                   @ ''/subjects/'' @ subject)
                (''Bearer '' @ t))]
       (case fetch w (delete_request
                (''https://iam.googleapis.com/v1/locations/global/workforcePools/'' @ pool
                   @ ''/subjects/'' @ subject)
                (''Bearer '' @ t)) of
          Inl m \<Rightarrow> throw (OtherError m)
        | Inr response \<Rightarrow>
            if status response = 404 then
              console_log (''Workforce user '' @ subject
                             @ '' not found, considering deletion successful'')
            else if status response = 429 \<or> status response \<ge> 500 then
              bind (lib (text_body response)) (\<lambda>error.
              throw (RetryableError (''Google Cloud API error ('' @ string_of_nat (status response)
                                      @ ''): '' @ error)))
            else if \<not> ok response then
              bind (lib (text_body response)) (\<lambda>error.
              throw (FatalError (''Failed to delete workforce user (''
                                  @ string_of_nat (status response) @ ''): '' @ error)))
            else
              console_log (''Successfully deleted workforce user: '' @ subject))"
  using assms
  by (cases "fetch w (delete_request
                (''https://iam.googleapis.com/v1/locations/global/workforcePools/'' @ pool
                   @ ''/subjects/'' @ subject)
                (''Bearer '' @ t))")
     (simp_all add: deleteWorkforceUser_def bind_lib bind_console_log bind_do_fetch bind_prepend
        prepend_prepend cong: if_cong)

lemma deleteWorkforceUser_unprintable:
  assumes "to_string accessToken = Inl m"
  shows "deleteWorkforceUser w accessToken projectId (JStr pool) (JStr subject) =
     prepend [Log (''Deleting workforce user: '' @ subject @ '' from pool: '' @ pool)]
       (throw (OtherError m))"
  using assms
  by (simp add: deleteWorkforceUser_def bind_lib bind_console_log bind_throw)

lemma delete_reply_http:
  "http_requests (snd (case x of
          Inl m \<Rightarrow> throw (OtherError m)
        | Inr response \<Rightarrow>
            if status response = 404 then
              console_log (''Workforce user '' @ subject
                             @ '' not found, considering deletion successful'')
            else if status response = 429 \<or> status response \<ge> 500 then
              bind (lib (text_body response)) (\<lambda>error.
              throw (RetryableError (''Google Cloud API error ('' @ string_of_nat (status response)
                                      @ ''): '' @ error)))
            else if \<not> ok response then
              bind (lib (text_body response)) (\<lambda>error.
              throw (FatalError (''Failed to delete workforce user (''
                                  @ string_of_nat (status response) @ ''): '' @ error)))
            else
              console_log (''Successfully deleted workforce user: '' @ subject))) = []"
  by (simp add: run_simps split: sum.split)

lemma deleteWorkforceUser_http:
  assumes "to_string accessToken = Inr t"
  shows "http_requests (snd (deleteWorkforceUser w accessToken projectId (JStr pool) (JStr subject)))
     = [delete_request
          (''https://iam.googleapis.com/v1/locations/global/workforcePools/'' @ pool
             @ ''/subjects/'' @ subject)
          (''Bearer '' @ t)]"
  by (simp add: deleteWorkforceUser_eq [OF assms] snd_prepend http_requests_append
        delete_reply_http)

lemma deleteWorkforceUser_fst:
  assumes "to_string accessToken = Inr t"
      and "fetch w (delete_request
                (''https://iam.googleapis.com/v1/locations/global/workforcePools/'' @ pool
                   @ ''/subjects/'' @ subject)
                (''Bearer '' @ t)) = Inr r"
  shows "fst (deleteWorkforceUser w accessToken projectId (JStr pool) (JStr subject)) =
     (if status r = 404 then Inr ()
      else if status r = 429 \<or> status r \<ge> 500 then
        (case text_body r of
           Inl m \<Rightarrow> Inl (OtherError m)
         | Inr b \<Rightarrow> Inl (RetryableError (''Google Cloud API error ('' @ string_of_nat (status r)
                                            @ ''): '' @ b)))
      else if \<not> ok r then
        (case text_body r of
           Inl m \<Rightarrow> Inl (OtherError m)
         | Inr b \<Rightarrow> Inl (FatalError (''Failed to delete workforce user ('' @ string_of_nat (status r)
                                        @ ''): '' @ b)))
      else Inr ())"
  using assms(2)
  by (simp add: deleteWorkforceUser_eq [OF assms(1)] run_simps split: sum.split)

lemma finalProjectId_snd: "snd (finalProjectId w p k) = []"
  by (auto simp: finalProjectId_def run_simps split: sum.split)

lemma invoke_catch_eq:
  "invoke_catch e = prepend [LogError (''Error deleting workforce user: '' @ message e)]
     (throw (case e of OtherError m \<Rightarrow> FatalError (''Unexpected error: '' @ m) | _ \<Rightarrow> e))"
  by (cases e) (simp_all add: invoke_catch_def run_simps)

lemma authenticated_secrets:
  assumes "truthy (service_account_key_of context)"
  shows "get_prop context ''secrets'' = Inr (get_prop_opt context ''secrets'')"
    and "get_prop_opt (get_prop_opt context ''secrets'') ''service_account_key''
           = service_account_key_of context"
  using assms by (cases "context"; simp add: service_account_key_of_def)+

section \<open>The lifecycle of \<^verbatim>\<open>invoke\<close>\<close>

lemma fst_bind: "fst (bind m f) = (case fst m of Inl e \<Rightarrow> Inl e | Inr a \<Rightarrow> fst (f a))"
  by (cases m; cases "fst m") (auto simp: bind_def split: prod.splits)

lemma snd_bind: "snd (bind m f) = snd m @ (case fst m of Inl e \<Rightarrow> [] | Inr a \<Rightarrow> snd (f a))"
  by (cases m; cases "fst m") (auto simp: bind_def split: prod.splits)

lemma fst_try_catch: "fst (try_catch m h) = (case fst m of Inl e \<Rightarrow> fst (h e) | Inr a \<Rightarrow> Inr a)"
  by (cases m; cases "fst m") (auto simp: try_catch_def split: prod.splits)

lemma snd_try_catch:
  "snd (try_catch m h) = snd m @ (case fst m of Inl e \<Rightarrow> snd (h e) | Inr a \<Rightarrow> [])"
  by (cases m; cases "fst m") (auto simp: try_catch_def split: prod.splits)

lemma validate_fields_snd: "snd (validate_fields p fs) = []"
  by (induction fs) (auto simp: run_simps split: sum.split)

lemma validateInputs_snd: "snd (validateInputs p) = []"
  by (simp only: validateInputs_def validate_fields_snd)

lemma validateInputs_obj_only:
  assumes "fst (validateInputs p) = Inr u"
  shows "\<exists>ps. p = JObj ps \<and> valid_id (own_prop ps ''workforce_pool_id'')
            \<and> valid_id (own_prop ps ''subject_id'')"
proof (cases p)
  case (JObj ps)
  with assms show ?thesis
    by (auto simp: validateInputs_obj valid_id_iff fst_throw split: if_splits)
qed (use assms in \<open>simp_all add: validateInputs_def run_simps\<close>)

lemma invoke_try_authenticated:
  assumes "authenticated w ps context accessToken"
  shows "invoke_try w (JObj ps) context =
     prepend ([Log (''Processing workforce pool: '' @ printed (own_prop ps ''workforce_pool_id'')),
               Log (''Deleting subject: '' @ printed (own_prop ps ''subject_id''))]
              @ snd (getAccessToken w (service_account_key_of context)))
       (bind (finalProjectId w (own_prop ps ''project_id'') (service_account_key_of context))
          (\<lambda>final_project_id.
        bind (lib (template [(''Using project ID: '', final_project_id)] [])) (\<lambda>line.
        bind (console_log line) (\<lambda>_.
        bind (deleteWorkforceUser w accessToken final_project_id
                (own_prop ps ''workforce_pool_id'') (own_prop ps ''subject_id'')) (\<lambda>_.
        bind (console_log ''Workforce user deletion completed successfully'') (\<lambda>_.
        ret (success_result w ps)))))))"
proof -
  from assms have valid: "\<not> invalid_param (own_prop ps ''workforce_pool_id'')"
      "\<not> invalid_param (own_prop ps ''subject_id'')"
    and key: "truthy (service_account_key_of context)"
    and tok: "fst (getAccessToken w (service_account_key_of context)) = Inr accessToken"
    by (simp_all add: authenticated_def valid_id_iff)
  from assms obtain pool subject where ids:
    "own_prop ps ''workforce_pool_id'' = JStr pool" "own_prop ps ''subject_id'' = JStr subject"
    by (auto simp: authenticated_def dest!: valid_id_JStr)
  note secrets = authenticated_secrets [OF key]
  show ?thesis
    using valid key
    by (simp add: invoke_try_def validateInputs_obj run_simps secrets Let_def
          bind_returned [OF tok] success_result_def ids printed_JStr)
qed

lemma invoke_eq:
  "invoke w p c = prepend [Log ''Starting Google Delete Workforce User action'']
     (try_catch (invoke_try w p c) invoke_catch)"
  by (simp add: invoke_def bind_console_log)

lemma fst_invoke_catch: "fst (invoke_catch e) = Inl (classify e)"
  by (cases e) (simp_all add: invoke_catch_eq fst_prepend fst_throw classify_def)

lemma snd_invoke_catch:
  "snd (invoke_catch e) = [LogError (''Error deleting workforce user: '' @ message e)]"
  by (simp add: invoke_catch_eq snd_prepend snd_throw)

lemma fst_invoke:
  "fst (invoke w p c) =
     (case fst (invoke_try w p c) of Inl e \<Rightarrow> Inl (classify e) | Inr a \<Rightarrow> Inr a)"
  by (simp add: invoke_eq fst_prepend fst_try_catch fst_invoke_catch cong: sum.case_cong)

lemma http_invoke:
  "http_requests (snd (invoke w p c)) = http_requests (snd (invoke_try w p c))"
  by (simp add: invoke_eq snd_prepend snd_try_catch http_requests_append snd_invoke_catch
        split: sum.split)

lemma invoke_try_settled:
  assumes "authenticated w ps context accessToken"
      and "fst (finalProjectId w (own_prop ps ''project_id'') (service_account_key_of context))
             = Inr projectId"
  shows "invoke_try w (JObj ps) context =
     prepend ([Log (''Processing workforce pool: '' @ printed (own_prop ps ''workforce_pool_id'')),
               Log (''Deleting subject: '' @ printed (own_prop ps ''subject_id''))]
              @ snd (getAccessToken w (service_account_key_of context)))
       (case to_string projectId of
          Inl m \<Rightarrow> throw (OtherError m)
        | Inr text \<Rightarrow>
            prepend [Log (''Using project ID: '' @ text)]
              (bind (deleteWorkforceUser w accessToken projectId
                       (own_prop ps ''workforce_pool_id'') (own_prop ps ''subject_id'')) (\<lambda>_.
               bind (console_log ''Workforce user deletion completed successfully'') (\<lambda>_.
               ret (success_result w ps)))))"
  by (cases "to_string projectId")
     (simp_all add: invoke_try_authenticated [OF assms(1)] bind_returned [OF assms(2)]
        finalProjectId_snd run_simps)

lemma invoke_try_reaches:
  assumes "reaches_delete w ps context accessToken projectId"
  shows "invoke_try w (JObj ps) context =
     prepend ([Log (''Processing workforce pool: '' @ printed (own_prop ps ''workforce_pool_id'')),
               Log (''Deleting subject: '' @ printed (own_prop ps ''subject_id''))]
              @ snd (getAccessToken w (service_account_key_of context))
              @ [Log (''Using project ID: '' @ printed projectId)])
       (bind (deleteWorkforceUser w accessToken projectId
                (own_prop ps ''workforce_pool_id'') (own_prop ps ''subject_id'')) (\<lambda>_.
        bind (console_log ''Workforce user deletion completed successfully'') (\<lambda>_.
        ret (success_result w ps))))"
proof -
  from assms have auth: "authenticated w ps context accessToken"
    and pid: "fst (finalProjectId w (own_prop ps ''project_id'') (service_account_key_of context))
                = Inr projectId"
    and shown: "to_string projectId = Inr (printed projectId)"
    by (simp_all add: reaches_delete_def printable_to_string)
  show ?thesis
    by (simp add: invoke_try_settled [OF auth pid] shown prepend_prepend)
qed

lemma fst_invoke_reaches:
  assumes "reaches_delete w ps context accessToken projectId"
  shows "fst (invoke w (JObj ps) context) =
     (case fst (deleteWorkforceUser w accessToken projectId
                  (own_prop ps ''workforce_pool_id'') (own_prop ps ''subject_id'')) of
        Inl e \<Rightarrow> Inl (classify e)
      | Inr u \<Rightarrow> Inr (success_result w ps))"
  by (simp add: fst_invoke invoke_try_reaches [OF assms] fst_prepend fst_bind run_simps
        split: sum.split)

lemma reaches_delete_ids:
  assumes "reaches_delete w ps context accessToken projectId"
  obtains pool subject where
    "own_prop ps ''workforce_pool_id'' = JStr pool" "own_prop ps ''subject_id'' = JStr subject"
    "to_string accessToken = Inr (printed accessToken)"
    "delete_request_of ps accessToken =
       delete_request
         (''https://iam.googleapis.com/v1/locations/global/workforcePools/'' @ pool
            @ ''/subjects/'' @ subject)
         (''Bearer '' @ printed accessToken)"
proof -
  from assms obtain pool subject where ids:
    "own_prop ps ''workforce_pool_id'' = JStr pool" "own_prop ps ''subject_id'' = JStr subject"
    by (auto simp: reaches_delete_def authenticated_def dest!: valid_id_JStr)
  moreover from assms have "to_string accessToken = Inr (printed accessToken)"
    by (simp add: reaches_delete_def printable_to_string)
  moreover have "delete_request_of ps accessToken =
       delete_request
         (''https://iam.googleapis.com/v1/locations/global/workforcePools/'' @ pool
            @ ''/subjects/'' @ subject)
         (''Bearer '' @ printed accessToken)"
    by (simp add: delete_request_of_def ids printed_JStr)
  ultimately show ?thesis by (rule that)
qed

lemma fst_invoke_status:
  assumes "reaches_delete w ps context accessToken projectId"
      and "fetch w (delete_request_of ps accessToken) = Inr r"
  shows "fst (invoke w (JObj ps) context) =
     (if status r = 404 then Inr (success_result w ps)
      else if status r = 429 \<or> status r \<ge> 500 then
        (case text_body r of
           Inl m \<Rightarrow> Inl (FatalError (''Unexpected error: '' @ m))
         | Inr b \<Rightarrow> Inl (RetryableError (''Google Cloud API error ('' @ string_of_nat (status r)
                                            @ ''): '' @ b)))
      else if \<not> ok r then
        (case text_body r of
           Inl m \<Rightarrow> Inl (FatalError (''Unexpected error: '' @ m))
         | Inr b \<Rightarrow> Inl (FatalError (''Failed to delete workforce user ('' @ string_of_nat (status r)
                                        @ ''): '' @ b)))
      else Inr (success_result w ps))"
proof -
  from assms(1) obtain pool subject where ids:
    "own_prop ps ''workforce_pool_id'' = JStr pool" "own_prop ps ''subject_id'' = JStr subject"
    and tok: "to_string accessToken = Inr (printed accessToken)"
    and rq: "delete_request_of ps accessToken =
       delete_request
         (''https://iam.googleapis.com/v1/locations/global/workforcePools/'' @ pool
            @ ''/subjects/'' @ subject)
         (''Bearer '' @ printed accessToken)"
    by (rule reaches_delete_ids)
  from assms(2) have "fetch w (delete_request
         (''https://iam.googleapis.com/v1/locations/global/workforcePools/'' @ pool
            @ ''/subjects/'' @ subject)
         (''Bearer '' @ printed accessToken)) = Inr r"
    by (simp add: rq)
  note d = deleteWorkforceUser_fst [OF tok this]
  show ?thesis
    by (simp add: fst_invoke_reaches [OF assms(1)] ids d classify_def split: sum.split)
qed

lemma getAccessToken_Inr_http:
  assumes "fst (getAccessToken w k) = Inr tok"
  shows "\<exists>jwt. http_requests (snd (getAccessToken w k)) = [token_request jwt]"
proof -
  have "fst (getAccessToken_try w k) = Inr tok"
    using assms by (rule getAccessToken_returned)
  then show ?thesis
    using getAccessToken_try_shape [of w k]
    by (auto simp: getAccessToken_snd fst_throw snd_prepend token_reply_snd)
qed

lemma http_bind_log_tail:
  "http_requests (snd (bind m (\<lambda>_. bind (console_log s) (\<lambda>_. ret r)))) = http_requests (snd m)"
  by (cases m; cases "fst m")
     (auto simp: bind_def console_log_def ret_def http_requests_append split: prod.splits)

lemma http_invoke_authenticated:
  assumes "authenticated w ps context accessToken"
  shows "\<exists>jwt. http_requests (snd (invoke w (JObj ps) context)) =
     token_request jwt #
       (case fst (finalProjectId w (own_prop ps ''project_id'') (service_account_key_of context)) of
          Inl e \<Rightarrow> []
        | Inr p \<Rightarrow>
            if printable p \<and> printable accessToken then [delete_request_of ps accessToken]
            else [])"
proof -
  from assms have "fst (getAccessToken w (service_account_key_of context)) = Inr accessToken"
    by (simp add: authenticated_def)
  then obtain jwt where tok:
    "http_requests (snd (getAccessToken w (service_account_key_of context))) = [token_request jwt]"
    by (blast dest: getAccessToken_Inr_http)
  from assms obtain pool subject where ids:
    "own_prop ps ''workforce_pool_id'' = JStr pool" "own_prop ps ''subject_id'' = JStr subject"
    by (auto simp: authenticated_def dest!: valid_id_JStr)
  have "http_requests (snd (invoke w (JObj ps) context)) =
     token_request jwt #
       (case fst (finalProjectId w (own_prop ps ''project_id'') (service_account_key_of context)) of
          Inl e \<Rightarrow> []
        | Inr p \<Rightarrow>
            if printable p \<and> printable accessToken then [delete_request_of ps accessToken]
            else [])"
  proof (cases "fst (finalProjectId w (own_prop ps ''project_id'') (service_account_key_of context))")
    case (Inl e)
    then show ?thesis
      by (simp add: http_invoke invoke_try_authenticated [OF assms] bind_thrown snd_prepend
            http_requests_append finalProjectId_snd snd_throw tok)
  next
    case settled: (Inr p)
    show ?thesis
    proof (cases "to_string p")
      case (Inl m)
      then show ?thesis
        using settled
        by (simp add: http_invoke invoke_try_settled [OF assms settled] snd_prepend
              http_requests_append snd_throw tok to_string_unprintable)
    next
      case shown: (Inr s)
      show ?thesis
      proof (cases "to_string accessToken")
        case (Inl m)
        then show ?thesis
          using settled shown
          by (simp add: http_invoke invoke_try_settled [OF assms settled] snd_prepend
                http_requests_append tok to_string_unprintable ids
                deleteWorkforceUser_unprintable bind_prepend bind_throw snd_throw)
      next
        case (Inr t)
        with settled shown have "reaches_delete w ps context accessToken p"
          using assms by (simp add: reaches_delete_def to_string_printable)
        then show ?thesis
          using settled shown Inr
          by (simp add: http_invoke invoke_try_reaches snd_prepend http_requests_append tok
                http_bind_log_tail ids deleteWorkforceUser_http delete_request_of_def
                to_string_printable printed_JStr)
      qed
    qed
  qed
  then show ?thesis by (rule exI [of _ jwt])
qed

lemma http_invoke_any:
  "http_requests (snd (invoke w p c)) = []
   \<or> (\<exists>jwt. http_requests (snd (invoke w p c)) = [token_request jwt])
   \<or> (\<exists>jwt url authorization. http_requests (snd (invoke w p c))
          = [token_request jwt, delete_request url authorization])"
proof (cases "fst (validateInputs p)")
  case (Inl e)
  then show ?thesis
    by (simp add: http_invoke invoke_try_def bind_thrown snd_prepend validateInputs_snd snd_throw)
next
  case (Inr u)
  then obtain ps where p: "p = JObj ps"
    and valid: "valid_id (own_prop ps ''workforce_pool_id'')" "valid_id (own_prop ps ''subject_id'')"
    by (blast dest: validateInputs_obj_only)
  from valid have ok: "\<not> invalid_param (own_prop ps ''workforce_pool_id'')"
      "\<not> invalid_param (own_prop ps ''subject_id'')"
    by (simp_all add: valid_id_iff)
  from valid obtain pool subject where ids:
    "own_prop ps ''workforce_pool_id'' = JStr pool" "own_prop ps ''subject_id'' = JStr subject"
    by (auto dest!: valid_id_JStr)
  show ?thesis
  proof (cases "truthy (service_account_key_of c)")
    case False
    then have "http_requests (snd (invoke_try w (JObj ps) c)) = []"
      using ok
      by (cases c)
         (simp_all add: invoke_try_def validateInputs_obj run_simps service_account_key_of_def
            Let_def ids)
    then show ?thesis by (simp add: http_invoke p)
  next
    case key: True
    show ?thesis
    proof (cases "fst (getAccessToken w (service_account_key_of c))")
      case (Inl e)
      note secrets = authenticated_secrets [OF key]
      have "http_requests (snd (invoke_try w (JObj ps) c))
              = http_requests (snd (getAccessToken w (service_account_key_of c)))"
        using ok key
        by (simp add: invoke_try_def validateInputs_obj run_simps secrets Let_def ids
              bind_thrown [OF Inl] snd_throw http_requests_append)
      then show ?thesis
        using getAccessToken_try_http [of w "service_account_key_of c"]
        by (auto simp: http_invoke p getAccessToken_snd)
    next
      case (Inr tok)
      with valid key have "authenticated w ps c tok"
        by (simp add: authenticated_def)
      from http_invoke_authenticated [OF this] obtain jwt where
        hs: "http_requests (snd (invoke w (JObj ps) c)) =
          token_request jwt #
            (case fst (finalProjectId w (own_prop ps ''project_id'') (service_account_key_of c)) of
               Inl e \<Rightarrow> []
             | Inr p \<Rightarrow>
                 if printable p \<and> printable tok then [delete_request_of ps tok] else [])"
        by blast
      show ?thesis
      proof (cases "http_requests (snd (invoke w p c)) = [token_request jwt]")
        case True
        then have "\<exists>jwt. http_requests (snd (invoke w p c)) = [token_request jwt]"
          by (rule exI [of _ jwt])
        then show ?thesis by simp
      next
        case False
        with hs have "http_requests (snd (invoke w p c)) =
            [token_request jwt, delete_request_of ps tok]"
          by (auto simp: p split: sum.splits if_splits)
        then have "\<exists>jwt url authorization. http_requests (snd (invoke w p c))
            = [token_request jwt, delete_request url authorization]"
          unfolding delete_request_of_def by blast
        then show ?thesis by simp
      qed
    qed
  qed
qed

lemma project_id_logged:
  assumes "authenticated w ps context accessToken"
      and "fst (finalProjectId w (own_prop ps ''project_id'') (service_account_key_of context))
             = Inr projectId"
      and "to_string projectId = Inr text"
  shows "Log (''Using project ID: '' @ text) \<in> set (snd (invoke w (JObj ps) context))"
  by (simp add: invoke_eq invoke_try_settled [OF assms(1,2)] assms(3) try_catch_prepend
        prepend_prepend snd_prepend)

lemma project_id_unprintable:
  assumes "authenticated w ps context accessToken"
      and "fst (finalProjectId w (own_prop ps ''project_id'') (service_account_key_of context))
             = Inr projectId"
      and "to_string projectId = Inl m"
  shows "fst (invoke w (JObj ps) context) = Inl (FatalError (''Unexpected error: '' @ m))"
  by (simp add: fst_invoke invoke_try_settled [OF assms(1,2)] assms(3) fst_prepend fst_throw
        classify_def)

lemma invoke_utils_not_found:
  assumes "own_prop qs ''subjectId'' = JStr s" "s \<noteq> []"
      and "own_prop qs ''workforcePoolId'' = JStr p" "p \<noteq> []"
      and "getAuthorizationHeader u context = Inr h"
      and "fetch w (delete_request_of_utils u qs context h) = Inr r"
      and "status r = 404" "\<not> ok r"
  shows "fst (invoke_utils u w (JObj qs) context) =
     Inr (JObj
       [(''subjectId'', JStr s),
        (''workforcePoolId'', JStr p),
        (''deleted'', JBool True),
        (''alreadyDeleted'', JBool True),
        (''deletedAt'', JStr (now_iso w))])"
  using assms
  by (simp add: invoke_utils_def deleteWorkforceUser_utils_def delete_request_of_utils_def
        bind_lib_plain bind_console_log bind_do_fetch_plain bind_prepend bind_ret fst_prepend
        fst_ret Let_def printed_JStr)

section \<open>The example inputs, evaluated\<close>

lemmas example_defs = example_key_def example_key_data_def example_key_data_no_project_def
  token_response_def response_of_def unreadable_response_def unprintable_def example_world_def
  example_context_def example_fields_def example_utils_def example_fields_utils_def

lemmas eval_defs = ret_def throw_def console_log_def console_error_def lib_def bind_def
  try_catch_def do_fetch_def token_url_def token_request_def getAccessToken_try_def
  getAccessToken_catch_def getAccessToken_def delete_request_def
  deleteWorkforceUser_def validateInputs_def finalProjectId_def invoke_try_def invoke_catch_def
  invoke_def own_prop_def js_trim_def is_js_space_def service_account_key_of_def valid_id_def
  authenticated_def reaches_delete_def delete_request_of_def success_result_def
  printable_def printed_def quoted_def

lemma example_authenticated:
  "authenticated (example_world example_key_data token_response r) example_fields example_context
     (JStr ''mock-access-token'')"
  by (simp add: example_defs eval_defs)

lemma example_reaches_delete:
  "reaches_delete (example_world example_key_data token_response r) example_fields example_context
     (JStr ''mock-access-token'') (JStr ''test-project-123'')"
  by (simp add: example_defs eval_defs)

lemma example_authenticated_no_project:
  "authenticated (example_world example_key_data_no_project token_response r) example_fields
     example_context (JStr ''mock-access-token'')"
  by (simp add: example_defs eval_defs)

lemma example_fetch_delete:
  "fetch (example_world k token_response r) (delete_request_of example_fields tok) = Inr r"
  by (simp add: example_defs eval_defs)

lemma thrown_retryable_simps:
  "thrown_retryable (Inl e) = Some (retryable e)" "thrown_retryable (Inr a) = None"
  by (simp_all add: thrown_retryable_def)

lemma is_delete_simps:
  "\<not> is_delete (token_request jwt)" "is_delete (delete_request url authorization)"
  "is_token_post (token_request jwt)" "\<not> is_token_post (delete_request url authorization)"
  by (simp_all add: is_delete_def is_token_post_def token_request_def delete_request_def)

section \<open>The properties\<close>

text \<open>
  \<^bold>\<open>C1\<close> (as amended). When validation, the secret check, the token exchange and the
  project id all succeed (the project id and the access token being values a template
  literal can print) and the DELETE is answered with status 404, \<^verbatim>\<open>invoke\<close> of
  \<^verbatim>\<open>src/script.mjs\<close> returns the success object
  \<^verbatim>\<open>{status: "success", workforce_pool_id, subject_id, deleted_at}\<close>; it has exactly these
  four properties, so it carries no \<^verbatim>\<open>alreadyDeleted\<close> marker. A second invocation against
  the already deleted subject (any world \<open>w'\<close> that answers 404 again) returns an object of the
  same shape, differing at most in \<^verbatim>\<open>deleted_at\<close>. The \<^verbatim>\<open>invoke\<close> of the variant built on
  \<^verbatim>\<open>@sgnl-actions/utils\<close> is the one that answers a 404 with \<^verbatim>\<open>alreadyDeleted: true\<close>.
\<close>

theorem not_found_is_success:
  "(reaches_delete w ps context accessToken projectId
      \<and> fetch w (delete_request_of ps accessToken) = Inr r \<and> status r = 404
      \<and> reaches_delete w' ps context' accessToken' projectId'
      \<and> fetch w' (delete_request_of ps accessToken') = Inr r' \<and> status r' = 404 \<longrightarrow>
        fst (invoke w (JObj ps) context) = Inr (success_result w ps)
      \<and> fst (invoke w' (JObj ps) context') = Inr (success_result w' ps)
      \<and> object_keys (success_result w ps)
            = [''status'', ''workforce_pool_id'', ''subject_id'', ''deleted_at'']
      \<and> object_keys (success_result w' ps) = object_keys (success_result w ps)
      \<and> get_prop_opt (success_result w ps) ''status'' = JStr ''success''
      \<and> get_prop_opt (success_result w' ps) ''status'' = JStr ''success'')
   \<and> (own_prop qs ''subjectId'' = JStr s \<and> s \<noteq> []
      \<and> own_prop qs ''workforcePoolId'' = JStr p \<and> p \<noteq> []
      \<and> getAuthorizationHeader u context = Inr h
      \<and> fetch w (delete_request_of_utils u qs context h) = Inr r
      \<and> status r = 404 \<and> \<not> ok r \<longrightarrow>
        fst (invoke_utils u w (JObj qs) context) =
          Inr (JObj
            [(''subjectId'', JStr s),
             (''workforcePoolId'', JStr p),
             (''deleted'', JBool True),
             (''alreadyDeleted'', JBool True),
             (''deletedAt'', JStr (now_iso w))]))"
proof (intro conjI impI)
  assume h: "reaches_delete w ps context accessToken projectId
      \<and> fetch w (delete_request_of ps accessToken) = Inr r \<and> status r = 404
      \<and> reaches_delete w' ps context' accessToken' projectId'
      \<and> fetch w' (delete_request_of ps accessToken') = Inr r' \<and> status r' = 404"
  then show "fst (invoke w (JObj ps) context) = Inr (success_result w ps)"
    by (simp add: fst_invoke_status [of w ps "context" accessToken projectId r])
  from h show "fst (invoke w' (JObj ps) context') = Inr (success_result w' ps)"
    by (simp add: fst_invoke_status [of w' ps "context'" accessToken' projectId' r'])
  show "object_keys (success_result w ps)
          = [''status'', ''workforce_pool_id'', ''subject_id'', ''deleted_at'']"
    by (simp add: success_result_def)
  show "object_keys (success_result w' ps) = object_keys (success_result w ps)"
    by (simp add: success_result_def)
  show "get_prop_opt (success_result w ps) ''status'' = JStr ''success''"
    by (simp add: success_result_def own_prop_def)
  show "get_prop_opt (success_result w' ps) ''status'' = JStr ''success''"
    by (simp add: success_result_def own_prop_def)
next
  assume "own_prop qs ''subjectId'' = JStr s \<and> s \<noteq> []
      \<and> own_prop qs ''workforcePoolId'' = JStr p \<and> p \<noteq> []
      \<and> getAuthorizationHeader u context = Inr h
      \<and> fetch w (delete_request_of_utils u qs context h) = Inr r
      \<and> status r = 404 \<and> \<not> ok r"
  then show "fst (invoke_utils u w (JObj qs) context) =
          Inr (JObj
            [(''subjectId'', JStr s),
             (''workforcePoolId'', JStr p),
             (''deleted'', JBool True),
             (''alreadyDeleted'', JBool True),
             (''deletedAt'', JStr (now_iso w))])"
    by (simp add: invoke_utils_not_found)
qed

text \<open>
  The claim as first stated fails on \<^verbatim>\<open>src/script.mjs\<close>: with the fixtures of the test
  suite and a 404 answer, the result of \<^verbatim>\<open>invoke\<close> has no \<^verbatim>\<open>alreadyDeleted\<close> property.
\<close>

theorem not_found_counterexample:
  "reaches_delete (example_world example_key_data token_response (response_of 404 ''User not found''))
       example_fields example_context (JStr ''mock-access-token'') (JStr ''test-project-123'')
   \<and> fetch (example_world example_key_data token_response (response_of 404 ''User not found''))
         (delete_request_of example_fields (JStr ''mock-access-token''))
       = Inr (response_of 404 ''User not found'')
   \<and> status (response_of 404 ''User not found'') = 404
   \<and> fst (invoke (example_world example_key_data token_response (response_of 404 ''User not found''))
             (JObj example_fields) example_context)
       = Inr (JObj
           [(''status'', JStr ''success''),
            (''workforce_pool_id'', JStr ''test-pool-123''),
            (''subject_id'', JStr ''user123@example.com''),
            (''deleted_at'', JStr ''2023-11-14T22:13:20.000Z'')])
   \<and> get_prop_opt (JObj
           [(''status'', JStr ''success''),
            (''workforce_pool_id'', JStr ''test-pool-123''),
            (''subject_id'', JStr ''user123@example.com''),
            (''deleted_at'', JStr ''2023-11-14T22:13:20.000Z'')]) ''alreadyDeleted''
       \<noteq> JBool True"
  by (simp add: example_defs eval_defs)

text \<open>Two invocations against a subject that is gone, and one of the variant.\<close>

theorem not_found_is_success_witness:
  "fst (invoke (example_world example_key_data token_response (response_of 404 ''User not found''))
          (JObj example_fields) example_context)
     = Inr (success_result
         (example_world example_key_data token_response (response_of 404 ''User not found''))
         example_fields)
   \<and> fst (invoke (example_world example_key_data token_response (response_of 404 ''Gone''))
          (JObj example_fields) example_context)
     = Inr (success_result
         (example_world example_key_data token_response (response_of 404 ''Gone''))
         example_fields)
   \<and> fst (invoke_utils example_utils
            (example_world example_key_data token_response (response_of 404 ''User not found''))
            (JObj example_fields_utils) example_context)
     = Inr (JObj
         [(''subjectId'', JStr ''user123@example.com''),
          (''workforcePoolId'', JStr ''test-pool-123''),
          (''deleted'', JBool True),
          (''alreadyDeleted'', JBool True),
          (''deletedAt'', JStr ''2023-11-14T22:13:20.000Z'')])"
proof -
  let ?w = "example_world example_key_data token_response (response_of 404 ''User not found'')"
  let ?w' = "example_world example_key_data token_response (response_of 404 ''Gone'')"
  have a: "reaches_delete ?w example_fields example_context
       (JStr ''mock-access-token'') (JStr ''test-project-123'')"
    and a': "reaches_delete ?w' example_fields example_context
       (JStr ''mock-access-token'') (JStr ''test-project-123'')"
    by (rule example_reaches_delete)+
  have b: "fetch ?w (delete_request_of example_fields (JStr ''mock-access-token''))
       = Inr (response_of 404 ''User not found'')"
    and b': "fetch ?w' (delete_request_of example_fields (JStr ''mock-access-token''))
       = Inr (response_of 404 ''Gone'')"
    by (rule example_fetch_delete)+
  have c: "status (response_of 404 ''User not found'') = 404" "status (response_of 404 ''Gone'') = 404"
    "\<not> ok (response_of 404 ''User not found'')"
    by (simp_all add: response_of_def)
  have d: "own_prop example_fields_utils ''subjectId'' = JStr ''user123@example.com''"
    "own_prop example_fields_utils ''workforcePoolId'' = JStr ''test-pool-123''"
    "getAuthorizationHeader example_utils example_context = Inr ''Bearer mock-access-token''"
    "fetch ?w (delete_request_of_utils example_utils example_fields_utils example_context
        ''Bearer mock-access-token'') = Inr (response_of 404 ''User not found'')"
    by (simp_all add: example_defs own_prop_def delete_request_of_utils_def
          delete_request_utils_def token_url_def printed_def)
  show ?thesis
    using not_found_is_success [of ?w example_fields example_context "JStr ''mock-access-token''"
        "JStr ''test-project-123''" "response_of 404 ''User not found''"
        ?w' example_context "JStr ''mock-access-token''" "JStr ''test-project-123''"
        "response_of 404 ''Gone''" example_fields_utils "''user123@example.com''"
        "''test-pool-123''" example_utils "''Bearer mock-access-token''"]
      a a' b b' c d
    by (simp add: example_world_def)
qed

text \<open>
  \<^bold>\<open>C2\<close>. When \<^verbatim>\<open>workforce_pool_id\<close> or \<^verbatim>\<open>subject_id\<close> is missing, not a string,
  empty or made of white space only, \<^verbatim>\<open>invoke\<close> throws the \<^verbatim>\<open>FatalError\<close>
  "Missing or invalid required parameter: <field>" (\<^verbatim>\<open>retryable = false\<close>) for the first
  such field. Its only effects are two console lines: no HTTP request is sent, the token
  exchange included.
\<close>

theorem invoke_rejects_invalid_ids:
  assumes "invalid_param (own_prop ps ''workforce_pool_id'')
             \<or> invalid_param (own_prop ps ''subject_id'')"
  shows "\<exists>field \<in> {''workforce_pool_id'', ''subject_id''}.
           invalid_param (own_prop ps field)
           \<and> invoke w (JObj ps) context =
               (Inl (FatalError (''Missing or invalid required parameter: '' @ field)),
                [Log ''Starting Google Delete Workforce User action'',
                 LogError (''Error deleting workforce user: ''
                             @ ''Missing or invalid required parameter: '' @ field)])
           \<and> retryable (FatalError (''Missing or invalid required parameter: '' @ field))
                = JBool False
           \<and> http_requests (snd (invoke w (JObj ps) context)) = []"
proof (cases "invalid_param (own_prop ps ''workforce_pool_id'')")
  case True
  then have "invoke_try w (JObj ps) context =
      throw (FatalError ''Missing or invalid required parameter: workforce_pool_id'')"
    by (simp add: invoke_try_def validateInputs_obj bind_throw)
  then have "invoke w (JObj ps) context =
      (Inl (FatalError ''Missing or invalid required parameter: workforce_pool_id''),
       [Log ''Starting Google Delete Workforce User action'',
        LogError (''Error deleting workforce user: ''
                    @ ''Missing or invalid required parameter: workforce_pool_id'')])"
    by (simp add: invoke_eq try_catch_throw invoke_catch_eq prepend_prepend)
       (simp add: prepend_def throw_def)
  with True show ?thesis by simp
next
  case False
  with assms have bad: "invalid_param (own_prop ps ''subject_id'')" by simp
  with False have "invoke_try w (JObj ps) context =
      throw (FatalError ''Missing or invalid required parameter: subject_id'')"
    by (simp add: invoke_try_def validateInputs_obj bind_throw)
  then have "invoke w (JObj ps) context =
      (Inl (FatalError ''Missing or invalid required parameter: subject_id''),
       [Log ''Starting Google Delete Workforce User action'',
        LogError (''Error deleting workforce user: ''
                    @ ''Missing or invalid required parameter: subject_id'')])"
    by (simp add: invoke_eq try_catch_throw invoke_catch_eq prepend_prepend)
       (simp add: prepend_def throw_def)
  with bad show ?thesis by simp
qed

text \<open>A subject id of three blanks.\<close>

theorem invoke_rejects_invalid_ids_witness:
  "invalid_param (own_prop [(''workforce_pool_id'', JStr ''test-pool-123''), (''subject_id'', JStr ''   '')]
       ''subject_id'')
   \<and> invoke (example_world example_key_data token_response (response_of 200 []))
         (JObj [(''workforce_pool_id'', JStr ''test-pool-123''), (''subject_id'', JStr ''   '')])
         example_context
       = (Inl (FatalError ''Missing or invalid required parameter: subject_id''),
          [Log ''Starting Google Delete Workforce User action'',
           LogError ''Error deleting workforce user: Missing or invalid required parameter: subject_id''])
   \<and> http_requests (snd (invoke (example_world example_key_data token_response (response_of 200 []))
         (JObj [(''workforce_pool_id'', JStr ''test-pool-123''), (''subject_id'', JStr ''   '')])
         example_context)) = []"
proof -
  let ?ps = "[(''workforce_pool_id'', JStr ''test-pool-123''), (''subject_id'', JStr ''   '')]"
  have bad: "invalid_param (own_prop ?ps ''subject_id'')"
    and good: "\<not> invalid_param (own_prop ?ps ''workforce_pool_id'')"
    by (simp_all add: invalid_param_def own_prop_def is_js_space_def)
  from bad have "invalid_param (own_prop ?ps ''workforce_pool_id'')
      \<or> invalid_param (own_prop ?ps ''subject_id'')" ..
  from invoke_rejects_invalid_ids [OF this,
      of "example_world example_key_data token_response (response_of 200 [])" example_context]
    good bad
  show ?thesis by auto
qed

text \<open>
  \<^bold>\<open>C3\<close> (as amended). Once the delete call is reached and answered: on a status of 429,
  502, 503 or 504 the script first reads the body of the response; when the body can be
  read \<^verbatim>\<open>invoke\<close> throws a \<^verbatim>\<open>RetryableError\<close> (\<^verbatim>\<open>retryable = true\<close>), and when reading
  it fails with a message \<open>m\<close> the failure is wrapped as the \<^verbatim>\<open>FatalError\<close>
  "Unexpected error: m" (\<^verbatim>\<open>retryable = false\<close>). On a status of 400, 401 or 403 the error
  that leaves \<^verbatim>\<open>invoke\<close> has \<^verbatim>\<open>retryable = false\<close> whether or not the body can be read;
  it is the \<^verbatim>\<open>FatalError\<close> "Failed to delete workforce user (<status>): <body>" when it
  can.
\<close>

theorem delete_status_retryable:
  assumes "reaches_delete w ps context accessToken projectId"
      and "fetch w (delete_request_of ps accessToken) = Inr r"
      and "response_wf r"
  shows "(status r \<in> {429, 502, 503, 504} \<longrightarrow>
            (\<forall>b. text_body r = Inr b \<longrightarrow>
               fst (invoke w (JObj ps) context) =
                 Inl (RetryableError (''Google Cloud API error ('' @ string_of_nat (status r)
                                        @ ''): '' @ b))
               \<and> thrown_retryable (fst (invoke w (JObj ps) context)) = Some (JBool True))
            \<and> (\<forall>m. text_body r = Inl m \<longrightarrow>
               fst (invoke w (JObj ps) context) = Inl (FatalError (''Unexpected error: '' @ m))
               \<and> thrown_retryable (fst (invoke w (JObj ps) context)) = Some (JBool False)))
       \<and> (status r \<in> {400, 401, 403} \<longrightarrow>
            thrown_retryable (fst (invoke w (JObj ps) context)) = Some (JBool False)
            \<and> (\<forall>b. text_body r = Inr b \<longrightarrow>
               fst (invoke w (JObj ps) context) =
                 Inl (FatalError (''Failed to delete workforce user ('' @ string_of_nat (status r)
                                    @ ''): '' @ b))))"
  using assms(3)
  by (cases "text_body r")
     (auto simp: fst_invoke_status [OF assms(1,2)] response_wf_def thrown_retryable_simps)

text \<open>
  The claim as first stated fails for a 503 answer whose body cannot be read: the delete
  call is reached and answered with status 503, and the error that leaves \<^verbatim>\<open>invoke\<close> is
  a \<^verbatim>\<open>FatalError\<close>, with \<^verbatim>\<open>retryable = false\<close>.
\<close>

theorem delete_status_retryable_counterexample:
  "reaches_delete
       (example_world example_key_data token_response (unreadable_response 503 ''terminated''))
       example_fields example_context (JStr ''mock-access-token'') (JStr ''test-project-123'')
   \<and> fetch (example_world example_key_data token_response (unreadable_response 503 ''terminated''))
         (delete_request_of example_fields (JStr ''mock-access-token''))
       = Inr (unreadable_response 503 ''terminated'')
   \<and> status (unreadable_response 503 ''terminated'') = 503
   \<and> fst (invoke
            (example_world example_key_data token_response (unreadable_response 503 ''terminated''))
            (JObj example_fields) example_context)
       = Inl (FatalError ''Unexpected error: terminated'')
   \<and> retryable (FatalError ''Unexpected error: terminated'') = JBool False"
  by (simp add: example_defs eval_defs)

text \<open>A 503 answer with a body, and a 403 answer whose body cannot be read.\<close>

theorem delete_status_retryable_witness:
  "fst (invoke (example_world example_key_data token_response (response_of 503 ''unavailable''))
          (JObj example_fields) example_context)
     = Inl (RetryableError ''Google Cloud API error (503): unavailable'')
   \<and> thrown_retryable
        (fst (invoke (example_world example_key_data token_response (response_of 503 ''unavailable''))
          (JObj example_fields) example_context)) = Some (JBool True)
   \<and> thrown_retryable
        (fst (invoke (example_world example_key_data token_response (unreadable_response 403 ''terminated''))
          (JObj example_fields) example_context)) = Some (JBool False)"
proof -
  let ?w = "example_world example_key_data token_response (response_of 503 ''unavailable'')"
  let ?v = "example_world example_key_data token_response (unreadable_response 403 ''terminated'')"
  have a: "reaches_delete ?w example_fields example_context
       (JStr ''mock-access-token'') (JStr ''test-project-123'')"
    and a': "reaches_delete ?v example_fields example_context
       (JStr ''mock-access-token'') (JStr ''test-project-123'')"
    by (rule example_reaches_delete)+
  have b: "fetch ?w (delete_request_of example_fields (JStr ''mock-access-token''))
       = Inr (response_of 503 ''unavailable'')"
    and b': "fetch ?v (delete_request_of example_fields (JStr ''mock-access-token''))
       = Inr (unreadable_response 403 ''terminated'')"
    by (rule example_fetch_delete)+
  have c: "response_wf (response_of 503 ''unavailable'')"
    and c': "response_wf (unreadable_response 403 ''terminated'')"
    and st: "text_body (response_of 503 ''unavailable'') = Inr ''unavailable''"
      "status (response_of 503 ''unavailable'') = 503"
      "status (unreadable_response 403 ''terminated'') = 403"
    by (simp_all add: response_of_def unreadable_response_def response_wf_def)
  have d: "string_of_nat 503 = ''503''"
    by (simp add: string_of_nat.simps digit_char_def)
  show ?thesis
    using delete_status_retryable [OF a b c] delete_status_retryable [OF a' b' c'] st d
    by (simp add: thrown_retryable_simps)
qed

text \<open>
  \<^bold>\<open>C4\<close> (as amended). The script retries on 429 and on every status from 500 up
  (\<^verbatim>\<open>response.status === 429 || response.status >= 500\<close>), so 500 and 501 are retryable
  like 502, 503 and 504: when the body of such a response can be read, \<^verbatim>\<open>invoke\<close> throws
  a \<^verbatim>\<open>RetryableError\<close> (\<^verbatim>\<open>retryable = true\<close>); when reading it fails, the failure is
  wrapped as a \<^verbatim>\<open>FatalError\<close>. Every other status that is neither 2xx nor 404, that is
  below 500 and not 429, is fatal (\<^verbatim>\<open>retryable = false\<close>), whether or not the body can
  be read.
\<close>

theorem delete_status_other:
  assumes "reaches_delete w ps context accessToken projectId"
      and "fetch w (delete_request_of ps accessToken) = Inr r"
      and "response_wf r"
  shows "(status r = 429 \<or> 500 \<le> status r \<longrightarrow>
            (\<forall>b. text_body r = Inr b \<longrightarrow>
               fst (invoke w (JObj ps) context) =
                 Inl (RetryableError (''Google Cloud API error ('' @ string_of_nat (status r)
                                        @ ''): '' @ b))
               \<and> thrown_retryable (fst (invoke w (JObj ps) context)) = Some (JBool True))
            \<and> (\<forall>m. text_body r = Inl m \<longrightarrow>
               fst (invoke w (JObj ps) context) = Inl (FatalError (''Unexpected error: '' @ m))
               \<and> thrown_retryable (fst (invoke w (JObj ps) context)) = Some (JBool False)))
       \<and> (\<not> (200 \<le> status r \<and> status r \<le> 299) \<and> status r \<noteq> 404 \<and> status r \<noteq> 429
            \<and> status r < 500 \<longrightarrow>
            thrown_retryable (fst (invoke w (JObj ps) context)) = Some (JBool False)
            \<and> (\<forall>b. text_body r = Inr b \<longrightarrow>
               fst (invoke w (JObj ps) context) =
                 Inl (FatalError (''Failed to delete workforce user ('' @ string_of_nat (status r)
                                    @ ''): '' @ b))))"
  using assms(3)
  by (cases "text_body r")
     (auto simp: fst_invoke_status [OF assms(1,2)] response_wf_def thrown_retryable_simps)

text \<open>
  The claim as first stated fails at status 500: it is neither 2xx, nor 404, nor one of
  429, 502, 503, 504, and the error thrown is a \<^verbatim>\<open>RetryableError\<close>.
\<close>

theorem delete_status_other_counterexample:
  "reaches_delete (example_world example_key_data token_response (response_of 500 ''boom''))
       example_fields example_context (JStr ''mock-access-token'') (JStr ''test-project-123'')
   \<and> fetch (example_world example_key_data token_response (response_of 500 ''boom''))
         (delete_request_of example_fields (JStr ''mock-access-token''))
       = Inr (response_of 500 ''boom'')
   \<and> response_wf (response_of 500 ''boom'')
   \<and> \<not> (200 \<le> status (response_of 500 ''boom'') \<and> status (response_of 500 ''boom'') \<le> 299)
   \<and> status (response_of 500 ''boom'') \<noteq> 404
   \<and> status (response_of 500 ''boom'') \<notin> {429, 502, 503, 504}
   \<and> fst (invoke (example_world example_key_data token_response (response_of 500 ''boom''))
             (JObj example_fields) example_context)
       = Inl (RetryableError ''Google Cloud API error (500): boom'')
   \<and> retryable (RetryableError ''Google Cloud API error (500): boom'') = JBool True"
  by (simp add: example_defs eval_defs response_wf_def string_of_nat.simps digit_char_def)

text \<open>The answers 501 and 429 are retried, a 409 answer is not.\<close>

theorem delete_status_other_witness:
  "fst (invoke (example_world example_key_data token_response (response_of 501 ''no''))
          (JObj example_fields) example_context)
     = Inl (RetryableError ''Google Cloud API error (501): no'')
   \<and> fst (invoke (example_world example_key_data token_response (response_of 429 ''slow down''))
          (JObj example_fields) example_context)
     = Inl (RetryableError ''Google Cloud API error (429): slow down'')
   \<and> fst (invoke (example_world example_key_data token_response (response_of 409 ''conflict''))
          (JObj example_fields) example_context)
     = Inl (FatalError ''Failed to delete workforce user (409): conflict'')"
proof -
  let ?w = "example_world example_key_data token_response (response_of 501 ''no'')"
  let ?u = "example_world example_key_data token_response (response_of 429 ''slow down'')"
  let ?v = "example_world example_key_data token_response (response_of 409 ''conflict'')"
  have a: "reaches_delete ?w example_fields example_context
       (JStr ''mock-access-token'') (JStr ''test-project-123'')"
    and a': "reaches_delete ?v example_fields example_context
       (JStr ''mock-access-token'') (JStr ''test-project-123'')"
    and a'': "reaches_delete ?u example_fields example_context
       (JStr ''mock-access-token'') (JStr ''test-project-123'')"
    by (rule example_reaches_delete)+
  have b: "fetch ?w (delete_request_of example_fields (JStr ''mock-access-token''))
       = Inr (response_of 501 ''no'')"
    and b': "fetch ?v (delete_request_of example_fields (JStr ''mock-access-token''))
       = Inr (response_of 409 ''conflict'')"
    and b'': "fetch ?u (delete_request_of example_fields (JStr ''mock-access-token''))
       = Inr (response_of 429 ''slow down'')"
    by (rule example_fetch_delete)+
  have c: "response_wf (response_of 501 ''no'')"
    and c': "response_wf (response_of 409 ''conflict'')"
    and c'': "response_wf (response_of 429 ''slow down'')"
    and st: "status (response_of 501 ''no'') = 501" "status (response_of 409 ''conflict'') = 409"
      "status (response_of 429 ''slow down'') = 429"
      "text_body (response_of 501 ''no'') = Inr ''no''"
      "text_body (response_of 409 ''conflict'') = Inr ''conflict''"
      "text_body (response_of 429 ''slow down'') = Inr ''slow down''"
    by (simp_all add: response_of_def response_wf_def)
  have d: "string_of_nat 501 = ''501''" "string_of_nat 409 = ''409''" "string_of_nat 429 = ''429''"
    by (simp_all add: string_of_nat.simps digit_char_def)
  show ?thesis
    using delete_status_other [OF a b c] delete_status_other [OF a' b' c']
      delete_status_other [OF a'' b'' c''] st d
    by (simp add: thrown_retryable_simps)
qed







text \<open>
  \<^bold>\<open>C7\<close>. Whatever \<^verbatim>\<open>getAccessToken\<close> throws has \<^verbatim>\<open>retryable = false\<close>. When the
  request it sends (a POST to the token endpoint) is answered with a status outside 200 to
  299, it throws a \<^verbatim>\<open>FatalError\<close>, with the message "Failed to get access token: <body>"
  when the body can be read.
\<close>

theorem token_exchange_failure_is_fatal:
  "(\<forall>e. fst (getAccessToken w key) = Inl e \<longrightarrow> retryable e = JBool False)
   \<and> (Http rq \<in> set (snd (getAccessToken w key)) \<and> fetch w rq = Inr r \<and> response_wf r
        \<and> \<not> (200 \<le> status r \<and> status r \<le> 299) \<longrightarrow>
       is_token_post rq
       \<and> (\<exists>m. fst (getAccessToken w key) = Inl (FatalError m)
              \<and> retryable (FatalError m) = JBool False
              \<and> (\<forall>b. text_body r = Inr b \<longrightarrow> m = ''Failed to get access token: '' @ b)))"
proof (intro conjI allI impI)
  fix e assume "fst (getAccessToken w key) = Inl e"
  then obtain m where "e = FatalError m"
    by (blast dest: getAccessToken_fatal)
  then show "retryable e = JBool False" by simp
next
  assume h: "Http rq \<in> set (snd (getAccessToken w key)) \<and> fetch w rq = Inr r \<and> response_wf r
        \<and> \<not> (200 \<le> status r \<and> status r \<le> 299)"
  then have "\<not> ok r" by (simp add: response_wf_def)
  with h show "\<exists>m. fst (getAccessToken w key) = Inl (FatalError m)
              \<and> retryable (FatalError m) = JBool False
              \<and> (\<forall>b. text_body r = Inr b \<longrightarrow> m = ''Failed to get access token: '' @ b)"
    using getAccessToken_exchange [of rq w key r] by auto
  from h have "Http rq \<in> set (snd (getAccessToken_try w key))"
    by (simp add: getAccessToken_snd)
  then show "is_token_post rq"
    using getAccessToken_try_shape [of w key]
    by (auto simp: snd_throw snd_prepend token_reply_snd is_token_post_def token_request_def)
qed

text \<open>A token endpoint that answers 401.\<close>

theorem token_exchange_failure_is_fatal_witness:
  "fst (getAccessToken (example_world example_key_data (response_of 401 ''invalid_grant'')
          (response_of 200 [])) example_key)
     = Inl (FatalError ''Failed to get access token: invalid_grant'')"
proof -
  let ?w = "example_world example_key_data (response_of 401 ''invalid_grant'') (response_of 200 [])"
  let ?rq = "token_request ''e30.e30.c2ln''"
  have sent: "Http ?rq \<in> set (snd (getAccessToken ?w example_key))"
    by (simp add: example_defs eval_defs)
  have reply: "fetch ?w ?rq = Inr (response_of 401 ''invalid_grant'')"
    by (simp add: example_defs token_request_def)
  have r: "response_wf (response_of 401 ''invalid_grant'')"
    "\<not> (200 \<le> status (response_of 401 ''invalid_grant'')
         \<and> status (response_of 401 ''invalid_grant'') \<le> 299)"
    "text_body (response_of 401 ''invalid_grant'') = Inr ''invalid_grant''"
    by (simp_all add: response_of_def response_wf_def)
  from token_exchange_failure_is_fatal [of ?w example_key ?rq "response_of 401 ''invalid_grant''"]
    sent reply r
  show ?thesis by auto
qed

text \<open>
  \<^bold>\<open>C8\<close> (as amended). After validation and a successful token exchange: a
  \<^verbatim>\<open>project_id\<close> parameter that is truthy is the project id the script goes on with,
  unchanged; an absent one, or one that is present and falsy, makes the script read
  \<^verbatim>\<open>project_id\<close> of the decoded key, go on with it when it is truthy, and throw the
  \<^verbatim>\<open>FatalError\<close> "Project ID not found ..." without any DELETE request otherwise. The
  script uses the project id in one place, the console line "Using project ID: ...": when
  the id can be printed the line shows its text, and when it cannot, the TypeError is
  wrapped as a \<^verbatim>\<open>FatalError\<close> and no DELETE request is sent.
\<close>

theorem project_id_resolution:
  assumes "authenticated w ps context accessToken"
  shows "(map_of ps ''project_id'' = None \<longrightarrow> \<not> truthy (own_prop ps ''project_id''))
       \<and> (truthy (own_prop ps ''project_id'') \<longrightarrow>
            fst (finalProjectId w (own_prop ps ''project_id'') (service_account_key_of context))
              = Inr (own_prop ps ''project_id''))
       \<and> (\<not> truthy (own_prop ps ''project_id'') \<longrightarrow>
            (\<exists>keyData key_project_id.
               decode_key w (service_account_key_of context) = Inr keyData
               \<and> get_prop keyData ''project_id'' = Inr key_project_id
               \<and> (truthy key_project_id \<longrightarrow>
                    fst (finalProjectId w (own_prop ps ''project_id'')
                           (service_account_key_of context)) = Inr key_project_id)
               \<and> (\<not> truthy key_project_id \<longrightarrow>
                    fst (invoke w (JObj ps) context) =
                      Inl (FatalError
                        ''Project ID not found in service account key and not provided in parameters'')
                    \<and> filter is_delete (http_requests (snd (invoke w (JObj ps) context))) = [])))
       \<and> (\<forall>projectId shown.
            fst (finalProjectId w (own_prop ps ''project_id'') (service_account_key_of context))
              = Inr projectId \<and> to_string projectId = Inr shown \<longrightarrow>
            Log (''Using project ID: '' @ shown) \<in> set (snd (invoke w (JObj ps) context)))
       \<and> (\<forall>projectId m.
            fst (finalProjectId w (own_prop ps ''project_id'') (service_account_key_of context))
              = Inr projectId \<and> to_string projectId = Inl m \<longrightarrow>
            fst (invoke w (JObj ps) context) = Inl (FatalError (''Unexpected error: '' @ m))
            \<and> filter is_delete (http_requests (snd (invoke w (JObj ps) context))) = [])"
proof (intro conjI impI allI)
  assume "map_of ps ''project_id'' = None"
  then show "\<not> truthy (own_prop ps ''project_id'')"
    by (simp add: own_prop_def)
next
  assume "truthy (own_prop ps ''project_id'')"
  then show "fst (finalProjectId w (own_prop ps ''project_id'') (service_account_key_of context))
      = Inr (own_prop ps ''project_id'')"
    by (simp add: finalProjectId_def fst_ret)
next
  assume absent: "\<not> truthy (own_prop ps ''project_id'')"
  from assms have "fst (getAccessToken w (service_account_key_of context)) = Inr accessToken"
    by (simp add: authenticated_def)
  then obtain keyData key_project_id where
    kd: "decode_key w (service_account_key_of context) = Inr keyData"
    and kp: "get_prop keyData ''project_id'' = Inr key_project_id"
    by (blast dest: getAccessToken_Inr_decodes)
  have final: "finalProjectId w (own_prop ps ''project_id'') (service_account_key_of context) =
      (if \<not> truthy key_project_id then
         throw (FatalError
           ''Project ID not found in service account key and not provided in parameters'')
       else ret key_project_id)"
    using absent kd kp by (simp add: finalProjectId_def bind_lib)
  have found: "fst (finalProjectId w (own_prop ps ''project_id'')
                           (service_account_key_of context)) = Inr key_project_id"
    if "truthy key_project_id"
    using that final by (simp add: fst_ret)
  have missing: "fst (invoke w (JObj ps) context) =
        Inl (FatalError
          ''Project ID not found in service account key and not provided in parameters'')
      \<and> filter is_delete (http_requests (snd (invoke w (JObj ps) context))) = []"
    if "\<not> truthy key_project_id"
  proof -
    from that final have thrown:
      "fst (finalProjectId w (own_prop ps ''project_id'') (service_account_key_of context)) =
         Inl (FatalError
           ''Project ID not found in service account key and not provided in parameters'')"
      by (simp add: fst_throw)
    have "fst (invoke w (JObj ps) context) =
        Inl (FatalError
          ''Project ID not found in service account key and not provided in parameters'')"
      by (simp add: fst_invoke invoke_try_authenticated [OF assms] bind_thrown [OF thrown]
            fst_prepend fst_throw classify_def)
    moreover from http_invoke_authenticated [OF assms] thrown
    have "filter is_delete (http_requests (snd (invoke w (JObj ps) context))) = []"
      by (auto simp: is_delete_simps)
    ultimately show ?thesis by simp
  qed
  from kd kp found missing
  show "\<exists>keyData key_project_id.
               decode_key w (service_account_key_of context) = Inr keyData
               \<and> get_prop keyData ''project_id'' = Inr key_project_id
               \<and> (truthy key_project_id \<longrightarrow>
                    fst (finalProjectId w (own_prop ps ''project_id'')
                           (service_account_key_of context)) = Inr key_project_id)
               \<and> (\<not> truthy key_project_id \<longrightarrow>
                    fst (invoke w (JObj ps) context) =
                      Inl (FatalError
                        ''Project ID not found in service account key and not provided in parameters'')
                    \<and> filter is_delete (http_requests (snd (invoke w (JObj ps) context))) = [])"
    by blast
next
  fix projectId shown
  assume "fst (finalProjectId w (own_prop ps ''project_id'') (service_account_key_of context))
              = Inr projectId \<and> to_string projectId = Inr shown"
  then show "Log (''Using project ID: '' @ shown) \<in> set (snd (invoke w (JObj ps) context))"
    using project_id_logged [OF assms] by blast
next
  fix projectId m
  assume a: "fst (finalProjectId w (own_prop ps ''project_id'') (service_account_key_of context))
              = Inr projectId \<and> to_string projectId = Inl m"
  then show "fst (invoke w (JObj ps) context) = Inl (FatalError (''Unexpected error: '' @ m))"
    using project_id_unprintable [OF assms] by blast
  from a have "\<not> printable projectId"
    by (simp add: to_string_unprintable)
  with http_invoke_authenticated [OF assms] a
  show "filter is_delete (http_requests (snd (invoke w (JObj ps) context))) = []"
    by (auto simp: is_delete_simps)
qed

text \<open>
  The claim as first stated fails for a parameter that is present and falsy: with
  \<^verbatim>\<open>project_id: ""\<close> the script goes on with the \<^verbatim>\<open>project_id\<close> of the key, not with
  the parameter.
\<close>

theorem project_id_resolution_counterexample:
  "map_of ((''project_id'', JStr []) # example_fields) ''project_id'' = Some (JStr [])
   \<and> authenticated (example_world example_key_data token_response (response_of 200 []))
        ((''project_id'', JStr []) # example_fields) example_context (JStr ''mock-access-token'')
   \<and> fst (finalProjectId (example_world example_key_data token_response (response_of 200 []))
            (own_prop ((''project_id'', JStr []) # example_fields) ''project_id'')
            (service_account_key_of example_context))
       = Inr (JStr ''test-project-123'')
   \<and> Log ''Using project ID: test-project-123''
       \<in> set (snd (invoke (example_world example_key_data token_response (response_of 200 []))
                 (JObj ((''project_id'', JStr []) # example_fields)) example_context))
   \<and> JStr ''test-project-123'' \<noteq> JStr []"
  by (simp add: example_defs eval_defs)

text \<open>
  The id of the key, the id of the parameter, neither, and a parameter that cannot be
  printed.
\<close>

theorem project_id_resolution_witness:
  "Log ''Using project ID: test-project-123''
     \<in> set (snd (invoke (example_world example_key_data token_response (response_of 200 []))
                 (JObj example_fields) example_context))
   \<and> Log ''Using project ID: my-project''
     \<in> set (snd (invoke (example_world example_key_data token_response (response_of 200 []))
                 (JObj ((''project_id'', JStr ''my-project'') # example_fields)) example_context))
   \<and> fst (invoke (example_world example_key_data_no_project token_response (response_of 200 []))
            (JObj example_fields) example_context)
       = Inl (FatalError
           ''Project ID not found in service account key and not provided in parameters'')
   \<and> fst (invoke (example_world example_key_data token_response (response_of 200 []))
            (JObj ((''project_id'', unprintable) # example_fields)) example_context)
       = Inl (FatalError ''Unexpected error: Cannot convert object to primitive value'')"
proof -
  let ?w = "example_world example_key_data token_response (response_of 200 [])"
  let ?v = "example_world example_key_data_no_project token_response (response_of 200 [])"
  let ?ps = "(''project_id'', JStr ''my-project'') # example_fields"
  let ?qs = "(''project_id'', unprintable) # example_fields"
  have a: "authenticated ?w example_fields example_context (JStr ''mock-access-token'')"
    by (rule example_authenticated)
  have b: "authenticated ?w ?ps example_context (JStr ''mock-access-token'')"
    by (simp add: example_defs eval_defs)
  have c: "authenticated ?v example_fields example_context (JStr ''mock-access-token'')"
    by (rule example_authenticated_no_project)
  have d: "authenticated ?w ?qs example_context (JStr ''mock-access-token'')"
    by (simp add: example_defs eval_defs)
  have absent: "map_of example_fields ''project_id'' = None"
    and given: "own_prop ?ps ''project_id'' = JStr ''my-project''"
      "own_prop ?qs ''project_id'' = unprintable" "truthy unprintable"
      "to_string unprintable = Inl ''Cannot convert object to primitive value''"
    and key: "service_account_key_of example_context = example_key"
    and kd: "decode_key ?w example_key = Inr example_key_data"
      "decode_key ?v example_key = Inr example_key_data_no_project"
    and kp: "get_prop example_key_data ''project_id'' = Inr (JStr ''test-project-123'')"
      "get_prop example_key_data_no_project ''project_id'' = Inr JUndefined"
    by (simp_all add: example_defs own_prop_def service_account_key_of_def)
  from project_id_resolution [OF a] absent key kd kp
  have "Log ''Using project ID: test-project-123''
     \<in> set (snd (invoke ?w (JObj example_fields) example_context))"
    by auto
  moreover from project_id_resolution [OF b] given
  have "Log ''Using project ID: my-project'' \<in> set (snd (invoke ?w (JObj ?ps) example_context))"
    by auto
  moreover from project_id_resolution [OF c] absent key kd kp
  have "fst (invoke ?v (JObj example_fields) example_context)
       = Inl (FatalError
           ''Project ID not found in service account key and not provided in parameters'')"
    by auto
  moreover from project_id_resolution [OF d] given
  have "fst (invoke ?w (JObj ?qs) example_context)
       = Inl (FatalError ''Unexpected error: Cannot convert object to primitive value'')"
    by auto
  ultimately show ?thesis by simp
qed

text \<open>
  \<^bold>\<open>C9\<close> (as amended). The HTTP requests of an invocation are none, or the token POST
  alone, or the token POST followed by one DELETE: at most one DELETE and one token POST,
  never repeated, and the DELETE only after the token exchange. The DELETE is sent whenever
  validation, the secret check, the token exchange and the settling of the project id all
  succeed and the project id and the access token can be printed, into the console line
  and the authorization header; when one of the two cannot, the token POST is the only
  request.
\<close>

theorem one_delete_after_token:
  "length (filter is_delete (http_requests (snd (invoke w params context)))) \<le> 1
   \<and> length (filter is_token_post (http_requests (snd (invoke w params context)))) \<le> 1
   \<and> (http_requests (snd (invoke w params context)) = []
       \<or> (\<exists>jwt. http_requests (snd (invoke w params context)) = [token_request jwt])
       \<or> (\<exists>jwt url authorization. http_requests (snd (invoke w params context))
              = [token_request jwt, delete_request url authorization]))
   \<and> (\<forall>jwt url authorization.
          is_token_post (token_request jwt) \<and> \<not> is_delete (token_request jwt)
          \<and> is_delete (delete_request url authorization)
          \<and> \<not> is_token_post (delete_request url authorization))
   \<and> (\<forall>ps tok pid. params = JObj ps \<and> reaches_delete w ps context tok pid \<longrightarrow>
          (\<exists>jwt. http_requests (snd (invoke w params context))
             = [token_request jwt, delete_request_of ps tok]))
   \<and> (\<forall>ps tok pid. params = JObj ps \<and> authenticated w ps context tok
          \<and> fst (finalProjectId w (own_prop ps ''project_id'') (service_account_key_of context))
               = Inr pid
          \<and> \<not> (printable pid \<and> printable tok) \<longrightarrow>
          (\<exists>jwt. http_requests (snd (invoke w params context)) = [token_request jwt]))"
proof -
  note shape = http_invoke_any [of w params "context"]
  have "length (filter is_delete (http_requests (snd (invoke w params context)))) \<le> 1"
    using shape by (auto simp: is_delete_simps)
  moreover have "length (filter is_token_post (http_requests (snd (invoke w params context)))) \<le> 1"
    using shape by (auto simp: is_delete_simps)
  moreover have "\<exists>jwt. http_requests (snd (invoke w params context))
             = [token_request jwt, delete_request_of ps tok]"
    if "params = JObj ps" "reaches_delete w ps context tok pid" for ps tok pid
  proof -
    from that have "authenticated w ps context tok"
      and "fst (finalProjectId w (own_prop ps ''project_id'') (service_account_key_of context))
             = Inr pid"
      and "printable pid \<and> printable tok"
      by (simp_all add: reaches_delete_def)
    with http_invoke_authenticated [of w ps "context" tok] that(1) show ?thesis
      by simp
  qed
  moreover have "\<exists>jwt. http_requests (snd (invoke w params context)) = [token_request jwt]"
    if "params = JObj ps" "authenticated w ps context tok"
      "fst (finalProjectId w (own_prop ps ''project_id'') (service_account_key_of context))
         = Inr pid"
      "\<not> (printable pid \<and> printable tok)" for ps tok pid
    using http_invoke_authenticated [OF that(2)] that(1,3,4) by simp
  ultimately show ?thesis
    using shape by (simp add: is_delete_simps) blast
qed

text \<open>
  The claim as first stated fails when the key has no \<^verbatim>\<open>project_id\<close> and none is given:
  validation and the token exchange succeed, and no DELETE is sent.
\<close>

theorem one_delete_counterexample:
  "fst (validateInputs (JObj example_fields)) = Inr ()
   \<and> fst (getAccessToken (example_world example_key_data_no_project token_response (response_of 200 []))
            (service_account_key_of example_context)) = Inr (JStr ''mock-access-token'')
   \<and> length (filter is_delete (http_requests (snd
        (invoke (example_world example_key_data_no_project token_response (response_of 200 []))
           (JObj example_fields) example_context)))) = 0"
  by (simp add: example_defs eval_defs is_delete_def)

text \<open>The requests of a successful deletion.\<close>

theorem one_delete_after_token_witness:
  "map req_method (http_requests (snd
      (invoke (example_world example_key_data token_response (response_of 200 []))
         (JObj example_fields) example_context))) = [''POST'', ''DELETE'']"
proof -
  let ?w = "example_world example_key_data token_response (response_of 200 [])"
  have "reaches_delete ?w example_fields example_context
       (JStr ''mock-access-token'') (JStr ''test-project-123'')"
    by (rule example_reaches_delete)
  with one_delete_after_token [of ?w "JObj example_fields" example_context]
  obtain jwt where "http_requests (snd (invoke ?w (JObj example_fields) example_context))
      = [token_request jwt, delete_request_of example_fields (JStr ''mock-access-token'')]"
    by blast
  then show ?thesis
    by (simp add: token_request_def delete_request_of_def delete_request_def)
qed

text \<open>
  \<^bold>\<open>C10\<close>. Every error that leaves \<^verbatim>\<open>invoke\<close> has a boolean \<^verbatim>\<open>retryable\<close>: a
  \<^verbatim>\<open>RetryableError\<close> or \<^verbatim>\<open>FatalError\<close> of the \<^verbatim>\<open>try\<close> block is rethrown as it is, and
  any other exception becomes the \<^verbatim>\<open>FatalError\<close> "Unexpected error: <message>".
\<close>

theorem invoke_errors_classified:
  "(\<forall>e. fst (invoke w params context) = Inl e \<longrightarrow>
        retryable e = JBool True \<or> retryable e = JBool False)
   \<and> (\<forall>m. fst (invoke_try w params context) = Inl (RetryableError m) \<longrightarrow>
          fst (invoke w params context) = Inl (RetryableError m))
   \<and> (\<forall>m. fst (invoke_try w params context) = Inl (FatalError m) \<longrightarrow>
          fst (invoke w params context) = Inl (FatalError m))
   \<and> (\<forall>m. fst (invoke_try w params context) = Inl (OtherError m) \<longrightarrow>
          fst (invoke w params context) = Inl (FatalError (''Unexpected error: '' @ m)))"
proof -
  have "retryable (classify e) = JBool True \<or> retryable (classify e) = JBool False" for e
    by (cases e) (simp_all add: classify_def)
  then show ?thesis
    by (auto simp: fst_invoke classify_def split: sum.splits)
qed

text \<open>A missing context: the TypeError of \<^verbatim>\<open>context.secrets\<close> is wrapped.\<close>

theorem invoke_errors_classified_witness:
  "fst (invoke_try (example_world example_key_data token_response (response_of 200 []))
          (JObj example_fields) JUndefined)
     = Inl (OtherError ''Cannot read properties of undefined (reading 'secrets')'')
   \<and> fst (invoke (example_world example_key_data token_response (response_of 200 []))
          (JObj example_fields) JUndefined)
     = Inl (FatalError ''Unexpected error: Cannot read properties of undefined (reading 'secrets')'')"
proof -
  let ?w = "example_world example_key_data token_response (response_of 200 [])"
  have "fst (invoke_try ?w (JObj example_fields) JUndefined)
     = Inl (OtherError ''Cannot read properties of undefined (reading 'secrets')'')"
    by (simp add: example_defs eval_defs)
  with invoke_errors_classified [of ?w "JObj example_fields" JUndefined]
  show ?thesis by simp
qed

end
